theory Spec2Isabelle
  imports Complex_Main
begin

section \<open>JavaScript values\<close>

text \<open>
  A JavaScript \<open>number\<close> is modelled as \<open>NaN\<close> or the rational value of a finite double.
  The division and the multiplication of the parser round their result to the nearest
  double (\<open>binary64\<close> below); the sums of the aggregation functions are carried
  exactly. Infinities, the sign of zero, overflow and subnormal numbers are outside
  the model.
\<close>

datatype jsnum = NaN | Num rat

text \<open>\<open>x || 0\<close> on an optional number: \<open>undefined\<close>, \<open>NaN\<close> and \<open>0\<close> are falsy, every
  other number (a negative one too) is kept.\<close>

fun or_zero :: "jsnum option \<Rightarrow> rat" where
  "or_zero None = 0"
| "or_zero (Some NaN) = 0"
| "or_zero (Some (Num x)) = x"

text \<open>\<open>a === b\<close> on numbers: \<open>NaN\<close> is not equal to itself.\<close>

fun strict_eq :: "jsnum \<Rightarrow> jsnum \<Rightarrow> bool" where
  "strict_eq (Num a) (Num b) = (a = b)"
| "strict_eq _ _ = False"

text \<open>Truthiness of an optional string: \<open>undefined\<close> and \<open>''\<close> are falsy.\<close>

fun truthy_str :: "string option \<Rightarrow> bool" where
  "truthy_str None = False"
| "truthy_str (Some s) = (s \<noteq> [])"

text \<open>\<open>new Set(xs).size\<close>: the number of distinct elements (\<open>NaN\<close> counts once).\<close>

definition set_size :: "'a list \<Rightarrow> int" where
  "set_size xs = int (length (remdups xs))"

section \<open>Data model (raffleService.ts)\<close>

datatype activity_type = ticket_purchase | raffle_created | raffle_finalized

record RaffleActivity =
  type :: activity_type
  buyer :: "string option"
  creator :: "string option"
  winner :: "string option"
  raffleId :: jsnum
  ticketCount :: "jsnum option"
  totalPaid :: "jsnum option"
  prizeAmount :: "jsnum option"
  timestamp :: string
  transactionVersion :: string
  blockHeight :: jsnum

record LeaderboardEntry =
  address :: string
  totalTickets :: rat
  totalSpent :: rat
  raffleCount :: int
  rank :: int

record RaffleStats =
  totalTicketsSold :: rat
  totalVolume :: rat
  uniqueParticipants :: int
  averageTicketsPerUser :: rat
  totalRaffles :: int
  activeRaffles :: int
  completedRaffles :: int

section \<open>Statistics (getPlatformStats, getRaffleStats)\<close>

text \<open>
  Each read function first consults the cache and returns a cached value as it is. The
  argument \<open>cached\<close> is the result of \<open>cacheService.get\<close> (\<open>None\<close> on a miss) and
  \<open>allActivities\<close> is the list returned by \<open>fetchRaffleEvents\<close>.
\<close>

text \<open>\<open>ticketPurchases.reduce((sum, a) => sum + (a.ticketCount || 0), 0)\<close>\<close>

definition sum_tickets :: "RaffleActivity list \<Rightarrow> rat" where
  "sum_tickets xs = foldl (\<lambda>s a. s + or_zero (ticketCount a)) 0 xs"

definition sum_paid :: "RaffleActivity list \<Rightarrow> rat" where
  "sum_paid xs = foldl (\<lambda>s a. s + or_zero (totalPaid a)) 0 xs"

text \<open>\<open>new Set(ticketPurchases.map(a => a.buyer).filter(Boolean))\<close>\<close>

definition uniqueBuyers :: "RaffleActivity list \<Rightarrow> string option list" where
  "uniqueBuyers purchases = remdups (filter truthy_str (map buyer purchases))"

definition getPlatformStats :: "RaffleStats option \<Rightarrow> RaffleActivity list \<Rightarrow> RaffleStats" where
  "getPlatformStats cached allActivities =
    (case cached of
       Some c \<Rightarrow> c
     | None \<Rightarrow>
        (let ticketPurchases = filter (\<lambda>a. type a = ticket_purchase) allActivities;
             raffleFinalizations = filter (\<lambda>a. type a = raffle_finalized) allActivities;
             buyers = int (length (uniqueBuyers ticketPurchases));
             uniqueRaffles = set_size (map raffleId allActivities);
             completed = set_size (map raffleId raffleFinalizations);
             totalTickets = sum_tickets ticketPurchases;
             volume = sum_paid ticketPurchases
         in \<lparr> totalTicketsSold = totalTickets,
              totalVolume = volume,
              uniqueParticipants = buyers,
              averageTicketsPerUser = (if buyers > 0 then totalTickets / of_int buyers else 0),
              totalRaffles = uniqueRaffles,
              activeRaffles = uniqueRaffles - completed,
              completedRaffles = completed \<rparr>))"

definition getRaffleStats :: "RaffleStats option \<Rightarrow> RaffleActivity list \<Rightarrow> jsnum \<Rightarrow> RaffleStats" where
  "getRaffleStats cached allActivities rid =
    (case cached of
       Some c \<Rightarrow> c
     | None \<Rightarrow>
        (let raffleActivities = filter (\<lambda>a. strict_eq (raffleId a) rid) allActivities;
             ticketPurchases = filter (\<lambda>a. type a = ticket_purchase) raffleActivities;
             isFinalized = list_ex (\<lambda>a. type a = raffle_finalized) raffleActivities;
             buyers = int (length (uniqueBuyers ticketPurchases));
             totalTickets = sum_tickets ticketPurchases;
             volume = sum_paid ticketPurchases
         in \<lparr> totalTicketsSold = totalTickets,
              totalVolume = volume,
              uniqueParticipants = buyers,
              averageTicketsPerUser = (if buyers > 0 then totalTickets / of_int buyers else 0),
              totalRaffles = 1,
              activeRaffles = (if isFinalized then 0 else 1),
              completedRaffles = (if isFinalized then 1 else 0) \<rparr>))"

section \<open>Leaderboards (getGlobalLeaderboard, getRaffleLeaderboard)\<close>

text \<open>
  A JavaScript \<open>Map\<close> keeps its keys in insertion order: it is an association list in
  which \<open>set\<close> overwrites the value of a present key in place and appends a new key.
  A \<open>Set\<close> is a list without duplicates, in insertion order.
\<close>

fun map_set :: "'k \<Rightarrow> 'v \<Rightarrow> ('k \<times> 'v) list \<Rightarrow> ('k \<times> 'v) list" where
  "map_set k v [] = [(k, v)]"
| "map_set k v ((k', v') # m) = (if k = k' then (k, v) # m else (k', v') # map_set k v m)"

definition set_add :: "'a \<Rightarrow> 'a list \<Rightarrow> 'a list" where
  "set_add x s = (if x \<in> set s then s else s @ [x])"

record user_stat =
  tickets :: rat
  spent :: rat
  raffles :: "jsnum list"

text \<open>The body of the \<open>forEach\<close> of getGlobalLeaderboard. The filter before it lets only
  records with a truthy buyer through, so the branch \<open>None\<close> is never taken.\<close>

definition add_global :: "RaffleActivity \<Rightarrow> (string \<times> user_stat) list \<Rightarrow> (string \<times> user_stat) list" where
  "add_global a userStats =
    (case buyer a of
       None \<Rightarrow> userStats
     | Some b \<Rightarrow>
        (let existing = (case map_of userStats b of
                           Some e \<Rightarrow> e
                         | None \<Rightarrow> \<lparr> tickets = 0, spent = 0, raffles = [] \<rparr>)
         in map_set b
              \<lparr> tickets = tickets existing + or_zero (ticketCount a),
                spent = spent existing + or_zero (totalPaid a),
                raffles = set_add (raffleId a) (raffles existing) \<rparr>
              userStats))"

text \<open>The body of the \<open>forEach\<close> of getRaffleLeaderboard: the same without the set of
  raffles (the field stays empty).\<close>

definition add_raffle :: "RaffleActivity \<Rightarrow> (string \<times> user_stat) list \<Rightarrow> (string \<times> user_stat) list" where
  "add_raffle a userStats =
    (case buyer a of
       None \<Rightarrow> userStats
     | Some b \<Rightarrow>
        (let existing = (case map_of userStats b of
                           Some e \<Rightarrow> e
                         | None \<Rightarrow> \<lparr> tickets = 0, spent = 0, raffles = [] \<rparr>)
         in map_set b
              \<lparr> tickets = tickets existing + or_zero (ticketCount a),
                spent = spent existing + or_zero (totalPaid a),
                raffles = [] \<rparr>
              userStats))"

text \<open>\<open>xs.slice(0, limit)\<close> for an integral limit: a negative limit counts from the end.\<close>

definition slice0 :: "'a list \<Rightarrow> int \<Rightarrow> 'a list" where
  "slice0 xs limit =
    (if limit < 0 then take (nat (int (length xs) + limit)) xs else take (nat limit) xs)"

text \<open>\<open>.sort((a, b) => b.totalTickets - a.totalTickets)\<close>: \<open>Array.prototype.sort\<close> is stable,
  and so is \<open>sort_key\<close>; the key is negated for the descending order.\<close>

definition sort_desc :: "LeaderboardEntry list \<Rightarrow> LeaderboardEntry list" where
  "sort_desc xs = sort_key (\<lambda>e. - totalTickets e) xs"

text \<open>\<open>.map((entry, index) => ({ ...entry, rank: index + 1 }))\<close>\<close>

definition assign_ranks :: "LeaderboardEntry list \<Rightarrow> LeaderboardEntry list" where
  "assign_ranks xs = map (\<lambda>(index, entry). entry \<lparr> rank := int index + 1 \<rparr>) (enumerate 0 xs)"

definition getGlobalLeaderboard ::
  "LeaderboardEntry list option \<Rightarrow> RaffleActivity list \<Rightarrow> int \<Rightarrow> LeaderboardEntry list" where
  "getGlobalLeaderboard cached allActivities limit =
    (case cached of
       Some c \<Rightarrow> c
     | None \<Rightarrow>
        (let userStats = fold add_global
               (filter (\<lambda>a. type a = ticket_purchase \<and> truthy_str (buyer a)) allActivities) [];
             entries = map (\<lambda>(addr, stats).
                 \<lparr> address = addr, totalTickets = tickets stats, totalSpent = spent stats,
                   raffleCount = int (length (raffles stats)), rank = 0 \<rparr>) userStats
         in assign_ranks (slice0 (sort_desc entries) limit)))"

definition getRaffleLeaderboard ::
  "LeaderboardEntry list option \<Rightarrow> RaffleActivity list \<Rightarrow> jsnum \<Rightarrow> int \<Rightarrow> LeaderboardEntry list" where
  "getRaffleLeaderboard cached allActivities rid limit =
    (case cached of
       Some c \<Rightarrow> c
     | None \<Rightarrow>
        (let userStats = fold add_raffle
               (filter (\<lambda>a. type a = ticket_purchase \<and> truthy_str (buyer a)
                            \<and> strict_eq (raffleId a) rid) allActivities) [];
             entries = map (\<lambda>(addr, stats).
                 \<lparr> address = addr, totalTickets = tickets stats, totalSpent = spent stats,
                   raffleCount = 1, rank = 0 \<rparr>) userStats
         in assign_ranks (slice0 (sort_desc entries) limit)))"

section \<open>Raw events and their parsing (parseEventData, fetchRaffleEvents)\<close>

text \<open>
  A field of an upstream event is \<open>undefined\<close> (absent), \<open>null\<close>, a number or a string;
  booleans, arrays and nested objects do not occur in the fields the parser reads and
  are outside the model.
\<close>

datatype jval = JUndefined | JNull | JNum jsnum | JStr string

text \<open>
  The conversions of the language that the model does not spell out are parameters:
  \<open>Number(s)\<close> and \<open>parseInt(s)\<close> on a string, \<open>String(n)\<close> on a number, and the clock
  read by \<open>new Date().toISOString()\<close>.
\<close>

record builtins =
  Number_str :: "string \<Rightarrow> jsnum"
  parseInt_str :: "string \<Rightarrow> jsnum"
  String_num :: "jsnum \<Rightarrow> string"
  now_iso :: string

fun truthy :: "jval \<Rightarrow> bool" where
  "truthy JUndefined = False"
| "truthy JNull = False"
| "truthy (JNum NaN) = False"
| "truthy (JNum (Num x)) = (x \<noteq> 0)"
| "truthy (JStr s) = (s \<noteq> [])"

text \<open>\<open>a || b\<close>\<close>

definition or_js :: "jval \<Rightarrow> jval \<Rightarrow> jval" where
  "or_js a b = (if truthy a then a else b)"

fun toNumber :: "builtins \<Rightarrow> jval \<Rightarrow> jsnum" where
  "toNumber B JUndefined = NaN"
| "toNumber B JNull = Num 0"
| "toNumber B (JNum n) = n"
| "toNumber B (JStr s) = Number_str B s"

fun toString :: "builtins \<Rightarrow> jval \<Rightarrow> string" where
  "toString B JUndefined = ''undefined''"
| "toString B JNull = ''null''"
| "toString B (JNum n) = String_num B n"
| "toString B (JStr s) = s"

text \<open>
  Rounding to binary64 (IEEE 754 double precision, round to nearest, ties to even).
  \<open>binary_exponent x\<close> is the integer \<open>e\<close> with \<open>2^e \<le> x < 2^(e+1)\<close> for a positive \<open>x\<close>;
  a double in that binade is a multiple of \<open>2^(e-52)\<close>, and \<open>binary64 x\<close> is the
  multiple nearest to \<open>x\<close>. The exponent is not bounded: the model is the arithmetic
  of doubles in the normal range, \<open>2^-1022 \<le> |x| < 2^1024\<close>.
\<close>

definition exponent_measure :: "rat \<Rightarrow> nat" where
  "exponent_measure x = (if 1 \<le> x then nat \<lfloor>x\<rfloor> else nat \<lceil>1 / x\<rceil> + 1)"

function binary_exponent :: "rat \<Rightarrow> int" where
  "binary_exponent x =
    (if x \<le> 0 then 0
     else if 2 \<le> x then binary_exponent (x / 2) + 1
     else if x < 1 then binary_exponent (2 * x) - 1
     else 0)"
  by pat_completeness auto

termination binary_exponent
proof (relation "measure exponent_measure")
  show "wf (measure exponent_measure)"
    by simp
next
  fix x :: rat
  assume x: "2 \<le> x"
  have "x / 2 \<le> x - 1" using x by simp
  then have "\<lfloor>x / 2\<rfloor> \<le> \<lfloor>x - 1\<rfloor>" by (rule floor_mono)
  then have "\<lfloor>x / 2\<rfloor> < \<lfloor>x\<rfloor>" by simp
  moreover have "0 < \<lfloor>x\<rfloor>" using x by linarith
  ultimately show "(x / 2, x) \<in> measure exponent_measure"
    using x by (simp add: exponent_measure_def)
next
  fix x :: rat
  assume pos: "\<not> x \<le> 0" and small: "x < 1"
  show "(2 * x, x) \<in> measure exponent_measure"
  proof (cases "1 \<le> 2 * x")
    case True
    have "2 * x < 2" using small by simp
    then have "\<lfloor>2 * x\<rfloor> \<le> 1" by linarith
    then have below: "nat \<lfloor>2 * x\<rfloor> \<le> 1" by linarith
    have "1 < 1 / x" using pos small by simp
    then have "2 \<le> \<lceil>1 / x\<rceil>" by linarith
    then have above: "2 \<le> nat \<lceil>1 / x\<rceil>" by linarith
    show ?thesis
      using True small below above unfolding exponent_measure_def by auto
  next
    case False
    have y: "2 < 1 / x" using False pos by (simp add: field_simps)
    have "1 / (2 * x) = (1 / x) / 2" by simp
    also have "\<dots> \<le> 1 / x - 1" using y by simp
    finally have "\<lceil>1 / (2 * x)\<rceil> \<le> \<lceil>1 / x - 1\<rceil>" by (rule ceiling_mono)
    then have "\<lceil>1 / (2 * x)\<rceil> < \<lceil>1 / x\<rceil>" by simp
    moreover have "0 < \<lceil>1 / x\<rceil>" using y by linarith
    ultimately show ?thesis
      using False small by (simp add: exponent_measure_def)
  qed
qed

declare binary_exponent.simps [simp del]

text \<open>The integer nearest to \<open>y\<close>, the even one of the two when \<open>y\<close> is halfway.\<close>

definition round_half_even :: "rat \<Rightarrow> int" where
  "round_half_even y =
    (let f = \<lfloor>y\<rfloor>
     in if y - of_int f < 1 / 2 then f
        else if 1 / 2 < y - of_int f then f + 1
        else if even f then f else f + 1)"

definition binary64 :: "rat \<Rightarrow> rat" where
  "binary64 x =
    (if x = 0 then 0
     else (let u = 2 powi (binary_exponent \<bar>x\<bar> - 52)
           in of_int (round_half_even (x / u)) * u))"

text \<open>
  Arithmetic on numbers: \<open>a / d\<close> and \<open>a * b\<close> are the doubles nearest to the exact
  quotient and product; \<open>NaN\<close> propagates; \<open>x > 0\<close> is false for \<open>NaN\<close>.
\<close>

fun num_div :: "jsnum \<Rightarrow> rat \<Rightarrow> jsnum" where
  "num_div NaN d = NaN"
| "num_div (Num x) d = Num (binary64 (x / d))"

fun num_mul :: "jsnum \<Rightarrow> jsnum \<Rightarrow> jsnum" where
  "num_mul (Num x) (Num y) = Num (binary64 (x * y))"
| "num_mul _ _ = NaN"

fun positive :: "jsnum \<Rightarrow> bool" where
  "positive NaN = False"
| "positive (Num x) = (0 < x)"


text \<open>\<open>s.includes(sub)\<close>: \<open>sub\<close> occurs in \<open>s\<close> as a contiguous substring.\<close>

fun str_includes :: "string \<Rightarrow> string \<Rightarrow> bool" where
  "str_includes [] sub = (sub = [])"
| "str_includes (c # cs) sub = (take (length sub) (c # cs) = sub \<or> str_includes cs sub)"

text \<open>
  The payload \<open>event.data\<close> after the optional \<open>JSON.parse\<close>: a string that is not JSON
  makes \<open>JSON.parse\<close> throw; \<open>undefined\<close> and \<open>null\<close> (also the JSON text \<open>null\<close>) make
  every property access throw; an object is the list of its properties (a number or a
  boolean behaves as an object without properties).
\<close>

datatype payload = PInvalidJson | PNullish | PObject "(string \<times> jval) list"

text \<open>The fields of an upstream event: \<open>type\<close>, \<open>indexed_type\<close>, \<open>data\<close>,
  \<open>transaction_version\<close> and \<open>transaction_block_height\<close>.\<close>

record raw_event =
  ev_type :: "string option"
  ev_indexed_type :: "string option"
  ev_data :: payload
  ev_transaction_version :: jval
  ev_transaction_block_height :: jval

text \<open>\<open>eventData.k\<close> on an object\<close>

definition get_prop :: "(string \<times> jval) list \<Rightarrow> string \<Rightarrow> jval" where
  "get_prop obj k = (case map_of obj k of Some v \<Rightarrow> v | None \<Rightarrow> JUndefined)"

text \<open>\<open>event.type || event.indexed_type\<close>\<close>

definition eventType :: "raw_event \<Rightarrow> string option" where
  "eventType event = (if truthy_str (ev_type event) then ev_type event else ev_indexed_type event)"

text \<open>\<open>eventType?.includes(name)\<close>, as a condition\<close>

definition tag_includes :: "string option \<Rightarrow> string \<Rightarrow> bool" where
  "tag_includes t name = (case t of None \<Rightarrow> False | Some s \<Rightarrow> str_includes s name)"

datatype js_exception = SyntaxError | TypeError | NetworkError

text \<open>The body of the \<open>try\<close> block of parseEventData (raffleService.ts): \<open>Inl\<close> is a throw.\<close>

definition parseEventData_body :: "builtins \<Rightarrow> raw_event \<Rightarrow> js_exception + RaffleActivity option" where
  "parseEventData_body B event =
    (case ev_data event of
       PInvalidJson \<Rightarrow> Inl SyntaxError
     | eventData \<Rightarrow>
        if tag_includes (eventType event) ''BuyTicketEvent'' then
          (case eventData of
             PObject d \<Rightarrow> Inr (Some
               \<lparr> type = ticket_purchase,
                 buyer = Some (toString B (or_js (or_js (get_prop d ''buyer'') (get_prop d ''user'')) (JStr ''''))),
                 creator = None,
                 winner = None,
                 raffleId = toNumber B
                   (or_js (or_js (get_prop d ''raffle_id'') (get_prop d ''raffleId'')) (JNum (Num 0))),
                 ticketCount = Some (toNumber B
                   (or_js (or_js (get_prop d ''ticket_count'') (get_prop d ''ticketCount'')) (JNum (Num 0)))),
                 totalPaid = Some (num_div (toNumber B
                   (or_js (or_js (get_prop d ''total_paid'') (get_prop d ''totalPaid'')) (JNum (Num 0))))
                   100000000),
                 prizeAmount = None,
                 timestamp = now_iso B,
                 transactionVersion = toString B (ev_transaction_version event),
                 blockHeight = toNumber B (ev_transaction_block_height event) \<rparr>)
           | _ \<Rightarrow> Inl TypeError)
        else if tag_includes (eventType event) ''CreateRaffleEvent''
              \<or> tag_includes (eventType event) ''RaffleCreatedEvent'' then
          (case eventData of
             PObject d \<Rightarrow>
               (let ticketPrice = toNumber B
                      (or_js (or_js (get_prop d ''ticket_price'') (get_prop d ''ticketPrice'')) (JNum (Num 0)));
                    totalTickets = toNumber B
                      (or_js (or_js (get_prop d ''total_tickets'') (get_prop d ''totalTickets'')) (JNum (Num 0)));
                    targetAmount = toNumber B
                      (or_js (or_js (get_prop d ''target_amount'') (get_prop d ''targetAmount'')) (JNum (Num 0)));
                    prizeAmountOctas = (if positive targetAmount then targetAmount
                                        else num_mul ticketPrice totalTickets)
                in Inr (Some
                  \<lparr> type = raffle_created,
                    buyer = None,
                    creator = Some (toString B (or_js (get_prop d ''creator'') (JStr ''''))),
                    winner = None,
                    raffleId = toNumber B
                      (or_js (or_js (get_prop d ''raffle_id'') (get_prop d ''raffleId'')) (JNum (Num 0))),
                    ticketCount = None,
                    totalPaid = None,
                    prizeAmount = Some (num_div prizeAmountOctas 100000000),
                    timestamp = now_iso B,
                    transactionVersion = toString B (ev_transaction_version event),
                    blockHeight = toNumber B (ev_transaction_block_height event) \<rparr>))
           | _ \<Rightarrow> Inl TypeError)
        else if tag_includes (eventType event) ''FinalizeRaffleEvent''
              \<or> tag_includes (eventType event) ''RaffleFinalizedEvent'' then
          (case eventData of
             PObject d \<Rightarrow> Inr (Some
               \<lparr> type = raffle_finalized,
                 buyer = None,
                 creator = None,
                 winner = Some (toString B
                   (or_js (or_js (get_prop d ''winner'') (get_prop d ''winner_address'')) (JStr ''''))),
                 raffleId = toNumber B
                   (or_js (or_js (get_prop d ''raffle_id'') (get_prop d ''raffleId'')) (JNum (Num 0))),
                 ticketCount = None,
                 totalPaid = None,
                 prizeAmount = Some (num_div (toNumber B
                   (or_js (or_js (or_js (get_prop d ''prize_amount'') (get_prop d ''prizeAmount''))
                      (get_prop d ''amount'')) (JNum (Num 0))))
                   100000000),
                 timestamp = now_iso B,
                 transactionVersion = toString B (ev_transaction_version event),
                 blockHeight = toNumber B (ev_transaction_block_height event) \<rparr>)
           | _ \<Rightarrow> Inl TypeError)
        else Inr None)"

text \<open>parseEventData: the \<open>catch\<close> turns every throw into \<open>null\<close>.\<close>

definition parseEventData :: "builtins \<Rightarrow> raw_event \<Rightarrow> RaffleActivity option" where
  "parseEventData B event =
    (case parseEventData_body B event of Inl error \<Rightarrow> None | Inr result \<Rightarrow> result)"


text \<open>
  The result of \<open>apolloClient.query\<close> under the configured \<open>errorPolicy: 'all'\<close>: the call
  throws (a network error), or resolves with a list of GraphQL errors and a \<open>data\<close> that
  is absent, has no \<open>events\<close>, or has the list of events.
\<close>

datatype query_data = NoData | NoEvents | Events "raw_event list"

datatype query_outcome = QueryThrows | QueryResult "string list" query_data

text \<open>\<open>data.events.map(parseEventData).filter(a => a !== null)\<close>\<close>

definition parse_events :: "builtins \<Rightarrow> raw_event list \<Rightarrow> RaffleActivity list" where
  "parse_events B events = map the (filter (\<lambda>a. a \<noteq> None) (map (parseEventData B) events))"

text \<open>
  fetchRaffleEvents: \<open>query\<close> is the upstream as a function of the requested limit. GraphQL
  errors are logged and the function goes on; the \<open>catch\<close> returns \<open>[]\<close> for every throw.
\<close>

definition fetchRaffleEvents_body ::
  "builtins \<Rightarrow> (int \<Rightarrow> query_outcome) \<Rightarrow> int \<Rightarrow> js_exception + RaffleActivity list" where
  "fetchRaffleEvents_body B query limit =
    (case query limit of
       QueryThrows \<Rightarrow> Inl NetworkError
     | QueryResult errors NoData \<Rightarrow> Inr []
     | QueryResult errors NoEvents \<Rightarrow> Inr []
     | QueryResult errors (Events events) \<Rightarrow> Inr (parse_events B events))"

definition fetchRaffleEvents ::
  "builtins \<Rightarrow> (int \<Rightarrow> query_outcome) \<Rightarrow> int \<Rightarrow> RaffleActivity list" where
  "fetchRaffleEvents B query limit =
    (case fetchRaffleEvents_body B query limit of Inl error \<Rightarrow> [] | Inr activities \<Rightarrow> activities)"

section \<open>Analytics write path (analyticsService.ts)\<close>

text \<open>A row of the table \<open>user_activities\<close>; \<open>row_timestamp\<close> is the column \<open>timestamp\<close>.\<close>

record UserActivity =
  user_address :: string
  raffle_id :: jsnum
  activity_type :: activity_type
  ticket_count :: "jsnum option"
  total_paid :: "jsnum option"
  prize_amount :: "jsnum option"
  transaction_version :: string
  block_height :: jsnum
  row_timestamp :: string

text \<open>\<open>activity.buyer || activity.creator || activity.winner || ''\<close>\<close>

definition first_address :: "RaffleActivity \<Rightarrow> string" where
  "first_address activity =
    (if truthy_str (buyer activity) then the (buyer activity)
     else if truthy_str (creator activity) then the (creator activity)
     else if truthy_str (winner activity) then the (winner activity)
     else [])"

definition to_row :: "RaffleActivity \<Rightarrow> UserActivity" where
  "to_row activity =
    \<lparr> user_address = first_address activity,
      raffle_id = raffleId activity,
      activity_type = type activity,
      ticket_count = ticketCount activity,
      total_paid = totalPaid activity,
      prize_amount = prizeAmount activity,
      transaction_version = transactionVersion activity,
      block_height = blockHeight activity,
      row_timestamp = timestamp activity \<rparr>"

text \<open>
  The store is an external service. The request
  \<open>upsert(rows, { onConflict: 'transaction_version', ignoreDuplicates: true })\<close> is the
  statement \<open>INSERT ... ON CONFLICT (transaction_version) DO NOTHING\<close> on a table whose
  column \<open>transaction_version\<close> is declared \<open>UNIQUE\<close> (init-polling.mjs): a row whose
  key is already in the table, or was inserted earlier by the same statement, is skipped.
\<close>

fun upsert_ignore :: "UserActivity list \<Rightarrow> UserActivity list \<Rightarrow> UserActivity list" where
  "upsert_ignore [] table = table"
| "upsert_ignore (r # rs) table =
     upsert_ignore rs
       (if transaction_version r \<in> transaction_version ` set table then table else table @ [r])"

text \<open>What the store answers: the statement is applied, it is rejected with an error
  in the response (nothing is written), or the client call throws.\<close>

datatype db_response = DbOk | DbError | DbThrows

record analytics_config =
  ENABLE_ANALYTICS :: bool
  supabaseAdmin :: bool

text \<open>trackActivitiesBatch, as a step on the table: an error is logged and swallowed.\<close>

definition trackActivitiesBatch ::
  "analytics_config \<Rightarrow> db_response \<Rightarrow> RaffleActivity list \<Rightarrow> UserActivity list \<Rightarrow> UserActivity list" where
  "trackActivitiesBatch cfg response activities table =
    (if \<not> ENABLE_ANALYTICS cfg \<or> \<not> supabaseAdmin cfg \<or> activities = [] then table
     else (case response of
             DbOk \<Rightarrow> upsert_ignore (map to_row activities) table
           | DbError \<Rightarrow> table
           | DbThrows \<Rightarrow> table))"

section \<open>Notification triggers (notificationTriggerService.ts)\<close>

text \<open>
  The fast cache tier behind \<open>cacheService\<close>: the keys it holds and whether the client
  is connected. \<open>exists\<close> answers \<open>false\<close> and \<open>set\<close> does nothing when the client call
  fails. The expiry of a key (24 hours for a marker) is not modelled: no time passes
  within one call.
\<close>

record redis_state =
  stored :: "string set"
  connected :: bool

definition cache_exists :: "redis_state \<Rightarrow> string \<Rightarrow> bool" where
  "cache_exists r key = (connected r \<and> key \<in> stored r)"

definition cache_set :: "redis_state \<Rightarrow> string \<Rightarrow> redis_state" where
  "cache_set r key = (if connected r then r \<lparr> stored := insert key (stored r) \<rparr> else r)"

definition PROCESSED_TX_PREFIX :: string where
  "PROCESSED_TX_PREFIX = ''processed_tx:''"

definition isTransactionProcessed :: "redis_state \<Rightarrow> string \<Rightarrow> bool" where
  "isTransactionProcessed r txVersion = cache_exists r (PROCESSED_TX_PREFIX @ txVersion)"

definition markTransactionProcessed :: "redis_state \<Rightarrow> string \<Rightarrow> redis_state" where
  "markTransactionProcessed r txVersion = cache_set r (PROCESSED_TX_PREFIX @ txVersion)"

text \<open>
  The calls into notificationService.ts:
  \<open>upsertUserTicket(buyer, raffleId, ticketCount, totalPaid)\<close> and
  \<open>createNotification\<close> with recipient, type, raffle id, related address, amount and
  transaction hash (the title and message texts are presentation only and left out).
  Whether a call returns or raises is a parameter \<open>returns\<close> of the model (the two
  functions as written catch their own errors and return).
\<close>

datatype ext_call =
    UpsertUserTicket string jsnum jsnum jsnum
  | CreateNotification string string jsnum "string option" "jsnum option" string

text \<open>The fields of RaffleMetadata that the handlers read.\<close>

datatype RaffleMetadata = RaffleMetadata (md_title: string) (md_creator: string) (md_prizeAmount: jsnum)

text \<open>\<open>s.toLowerCase()\<close> on the ASCII letters.\<close>

definition lower_char :: "char \<Rightarrow> char" where
  "lower_char c =
    (if 65 \<le> (of_char c :: nat) \<and> (of_char c :: nat) \<le> 90 then char_of (of_char c + 32 :: nat) else c)"

definition toLowerCase :: "string \<Rightarrow> string" where
  "toLowerCase s = map lower_char s"

text \<open>Truthiness of an optional number.\<close>

fun truthy_num :: "jsnum option \<Rightarrow> bool" where
  "truthy_num None = False"
| "truthy_num (Some NaN) = False"
| "truthy_num (Some (Num x)) = (x \<noteq> 0)"

text \<open>
  Each handler awaits its calls one after the other and uses no result of them, so a
  handler is the list of calls it makes, in order. \<open>raffleMetadata?.creator\<close> is
  \<open>undefined\<close> without metadata.
\<close>

definition handleTicketPurchase :: "RaffleActivity \<Rightarrow> RaffleMetadata option \<Rightarrow> ext_call list" where
  "handleTicketPurchase activity raffleMetadata =
    (if \<not> truthy_str (buyer activity) \<or> \<not> truthy_num (ticketCount activity)
        \<or> \<not> truthy_num (totalPaid activity) then []
     else
       UpsertUserTicket (the (buyer activity)) (raffleId activity)
         (the (ticketCount activity)) (the (totalPaid activity))
       # (case raffleMetadata of
            None \<Rightarrow> []
          | Some md \<Rightarrow>
              if md_creator md = [] \<or> toLowerCase (md_creator md) = toLowerCase (the (buyer activity))
              then []
              else [CreateNotification (md_creator md) ''ticket_purchased'' (raffleId activity)
                      (buyer activity) (totalPaid activity) (transactionVersion activity)]))"

definition handleRaffleCreated :: "RaffleActivity \<Rightarrow> ext_call list" where
  "handleRaffleCreated activity =
    (if \<not> truthy_str (creator activity) then []
     else [CreateNotification (the (creator activity)) ''raffle_created'' (raffleId activity)
             None (prizeAmount activity) (transactionVersion activity)])"

text \<open>\<open>activity.prizeAmount || raffleMetadata?.prizeAmount || 0\<close>\<close>

definition finalized_prize :: "RaffleActivity \<Rightarrow> RaffleMetadata option \<Rightarrow> jsnum" where
  "finalized_prize activity raffleMetadata =
    (if truthy_num (prizeAmount activity) then the (prizeAmount activity)
     else (case raffleMetadata of
             None \<Rightarrow> Num 0
           | Some md \<Rightarrow> if truthy_num (Some (md_prizeAmount md)) then md_prizeAmount md else Num 0))"

definition handleRaffleFinalized :: "RaffleActivity \<Rightarrow> RaffleMetadata option \<Rightarrow> ext_call list" where
  "handleRaffleFinalized activity raffleMetadata =
    (if truthy_str (winner activity)
     then [CreateNotification (the (winner activity)) ''raffle_won'' (raffleId activity) None
             (Some (finalized_prize activity raffleMetadata)) (transactionVersion activity)]
     else [])
    @ (case raffleMetadata of
         None \<Rightarrow> []
       | Some md \<Rightarrow>
           if md_creator md \<noteq> [] \<and> Some (toLowerCase (md_creator md)) \<noteq> map_option toLowerCase (winner activity)
           then [CreateNotification (md_creator md) ''raffle_ended'' (raffleId activity)
                   (winner activity) (Some (finalized_prize activity raffleMetadata))
                   (transactionVersion activity)]
           else [])"

text \<open>Awaiting the calls in order: the first one that raises ends the handler. The
  result is the calls that were started and whether the handler completed.\<close>

fun run_calls :: "(ext_call \<Rightarrow> bool) \<Rightarrow> ext_call list \<Rightarrow> ext_call list \<times> bool" where
  "run_calls returns [] = ([], True)"
| "run_calls returns (c # cs) =
     (if returns c then (case run_calls returns cs of (started, completed) \<Rightarrow> (c # started, completed))
      else ([c], False))"

record world =
  redis :: redis_state
  calls :: "ext_call list"

definition handler_calls :: "RaffleActivity \<Rightarrow> RaffleMetadata option \<Rightarrow> ext_call list" where
  "handler_calls activity raffleMetadata =
    (case type activity of
       ticket_purchase \<Rightarrow> handleTicketPurchase activity raffleMetadata
     | raffle_created \<Rightarrow> handleRaffleCreated activity
     | raffle_finalized \<Rightarrow> handleRaffleFinalized activity raffleMetadata)"

text \<open>processActivityNotifications: the marker is set after the \<open>switch\<close>, inside the
  \<open>try\<close>; a raise skips it and is logged by the \<open>catch\<close>.\<close>

definition processActivityNotifications ::
  "(ext_call \<Rightarrow> bool) \<Rightarrow> RaffleActivity \<Rightarrow> RaffleMetadata option \<Rightarrow> world \<Rightarrow> world" where
  "processActivityNotifications returns activity raffleMetadata w =
    (if isTransactionProcessed (redis w) (transactionVersion activity) then w
     else
       (case run_calls returns (handler_calls activity raffleMetadata) of
          (started, completed) \<Rightarrow>
            (let w' = w \<lparr> calls := calls w @ started \<rparr>
             in if completed
                then w' \<lparr> redis := markTransactionProcessed (redis w') (transactionVersion activity) \<rparr>
                else w')))"

text \<open>processActivitiesBatch: one activity after the other, each with its metadata.\<close>

fun processActivitiesBatch ::
  "(ext_call \<Rightarrow> bool) \<Rightarrow> RaffleActivity list \<Rightarrow> (jsnum \<Rightarrow> RaffleMetadata option) \<Rightarrow> world \<Rightarrow> world" where
  "processActivitiesBatch returns [] raffleMetadataMap w = w"
| "processActivitiesBatch returns (activity # activities) raffleMetadataMap w =
     processActivitiesBatch returns activities raffleMetadataMap
       (processActivityNotifications returns activity (raffleMetadataMap (raffleId activity)) w)"

section \<open>Read endpoints (apiRoutes.ts, raffleRoutes.ts)\<close>

text \<open>
  A response is its HTTP status and the JSON object passed to \<open>res.json\<close>, as the
  list of its properties. \<open>'d\<close> is the type of the payload under \<open>data\<close>.
\<close>

datatype 'd jsonv = VBool bool | VStr string | VInt int | VData 'd

record 'd response =
  status :: nat
  body :: "(string \<times> 'd jsonv) list"

text \<open>\<open>parseInt(req.query.limit) || dflt\<close>: \<open>None\<close> is the \<open>NaN\<close> of \<open>parseInt\<close>.\<close>

definition limit_or :: "int option \<Rightarrow> int \<Rightarrow> int" where
  "limit_or parsed dflt = (case parsed of None \<Rightarrow> dflt | Some n \<Rightarrow> if n = 0 then dflt else n)"

definition failure :: "nat \<Rightarrow> string \<Rightarrow> 'd response" where
  "failure code message =
     \<lparr> status = code, body = [(''success'', VBool False), (''error'', VStr message)] \<rparr>"

text \<open>
  The handlers of apiRoutes.ts. The argument \<open>service\<close> is the awaited call into
  raffleService (\<open>Inl\<close> when it raises, which the handler's \<open>catch\<close> answers with
  status 500); \<open>raffle_param\<close> and \<open>limit\<close> are the results of \<open>parseInt\<close> on the request.
\<close>

definition get_activity_global ::
  "(int \<Rightarrow> js_exception + 'a list) \<Rightarrow> int option \<Rightarrow> 'a list response" where
  "get_activity_global service limit =
    (case service (limit_or limit 50) of
       Inl error \<Rightarrow> failure 500 ''Failed to fetch global activity''
     | Inr activities \<Rightarrow>
         \<lparr> status = 200,
           body = [(''success'', VBool True), (''data'', VData activities),
                   (''count'', VInt (int (length activities)))] \<rparr>)"

definition get_activity_raffle ::
  "(int \<Rightarrow> int \<Rightarrow> js_exception + 'a list) \<Rightarrow> int option \<Rightarrow> int option \<Rightarrow> 'a list response" where
  "get_activity_raffle service raffle_param limit =
    (case raffle_param of
       None \<Rightarrow> failure 400 ''Invalid raffle ID''
     | Some rid \<Rightarrow>
        (case service rid (limit_or limit 50) of
           Inl error \<Rightarrow> failure 500 ''Failed to fetch raffle activity''
         | Inr activities \<Rightarrow>
             \<lparr> status = 200,
               body = [(''success'', VBool True), (''data'', VData activities),
                       (''count'', VInt (int (length activities))), (''raffleId'', VInt rid)] \<rparr>))"

definition get_activity_user ::
  "(string \<Rightarrow> int \<Rightarrow> js_exception + 'a list) \<Rightarrow> string \<Rightarrow> int option \<Rightarrow> 'a list response" where
  "get_activity_user service userAddress limit =
    (if userAddress = [] then failure 400 ''User address required''
     else
       (case service userAddress (limit_or limit 50) of
          Inl error \<Rightarrow> failure 500 ''Failed to fetch user activity''
        | Inr activities \<Rightarrow>
            \<lparr> status = 200,
              body = [(''success'', VBool True), (''data'', VData activities),
                      (''count'', VInt (int (length activities))),
                      (''userAddress'', VStr userAddress)] \<rparr>))"

definition get_leaderboard_global ::
  "(int \<Rightarrow> js_exception + 'a list) \<Rightarrow> int option \<Rightarrow> 'a list response" where
  "get_leaderboard_global service limit =
    (case service (limit_or limit 100) of
       Inl error \<Rightarrow> failure 500 ''Failed to fetch global leaderboard''
     | Inr leaderboard \<Rightarrow>
         \<lparr> status = 200,
           body = [(''success'', VBool True), (''data'', VData leaderboard),
                   (''count'', VInt (int (length leaderboard)))] \<rparr>)"

definition get_leaderboard_raffle ::
  "(int \<Rightarrow> int \<Rightarrow> js_exception + 'a list) \<Rightarrow> int option \<Rightarrow> int option \<Rightarrow> 'a list response" where
  "get_leaderboard_raffle service raffle_param limit =
    (case raffle_param of
       None \<Rightarrow> failure 400 ''Invalid raffle ID''
     | Some rid \<Rightarrow>
        (case service rid (limit_or limit 100) of
           Inl error \<Rightarrow> failure 500 ''Failed to fetch raffle leaderboard''
         | Inr leaderboard \<Rightarrow>
             \<lparr> status = 200,
               body = [(''success'', VBool True), (''data'', VData leaderboard),
                       (''count'', VInt (int (length leaderboard))), (''raffleId'', VInt rid)] \<rparr>))"

definition get_stats_platform :: "(js_exception + 'd) \<Rightarrow> 'd response" where
  "get_stats_platform service =
    (case service of
       Inl error \<Rightarrow> failure 500 ''Failed to fetch platform stats''
     | Inr stats \<Rightarrow>
         \<lparr> status = 200, body = [(''success'', VBool True), (''data'', VData stats)] \<rparr>)"

definition get_stats_raffle :: "(int \<Rightarrow> js_exception + 'd) \<Rightarrow> int option \<Rightarrow> 'd response" where
  "get_stats_raffle service raffle_param =
    (case raffle_param of
       None \<Rightarrow> failure 400 ''Invalid raffle ID''
     | Some rid \<Rightarrow>
        (case service rid of
           Inl error \<Rightarrow> failure 500 ''Failed to fetch raffle stats''
         | Inr stats \<Rightarrow>
             \<lparr> status = 200,
               body = [(''success'', VBool True), (''data'', VData stats),
                       (''raffleId'', VInt rid)] \<rparr>))"

text \<open>
  The handlers of raffleRoutes.ts (\<open>/api/raffle-activity\<close>). \<open>cached\<close> is the result of
  \<open>cacheService.get\<close>; in the leaderboard handler \<open>supabaseCache\<close> is the awaited
  \<open>getCachedLeaderboard\<close> and \<open>placeholder\<close> the object the handler computes in its
  third layer.
\<close>

definition raffle_activity_global ::
  "'d option \<Rightarrow> (int \<Rightarrow> js_exception + 'd) \<Rightarrow> int option \<Rightarrow> 'd response" where
  "raffle_activity_global cached service limit =
    (case cached of
       Some c \<Rightarrow>
         \<lparr> status = 200,
           body = [(''success'', VBool True), (''data'', VData c), (''cached'', VBool True),
                   (''source'', VStr ''redis'')] \<rparr>
     | None \<Rightarrow>
        (case service (limit_or limit 50) of
           Inl error \<Rightarrow> failure 500 ''Failed to fetch global activity''
         | Inr activities \<Rightarrow>
             \<lparr> status = 200,
               body = [(''success'', VBool True), (''data'', VData activities),
                       (''cached'', VBool False), (''source'', VStr ''indexer'')] \<rparr>))"

definition raffle_activity_raffle ::
  "'d option \<Rightarrow> (int \<Rightarrow> int \<Rightarrow> js_exception + 'd) \<Rightarrow> int option \<Rightarrow> int option \<Rightarrow> 'd response" where
  "raffle_activity_raffle cached service raffle_param limit =
    (case raffle_param of
       None \<Rightarrow> failure 400 ''Invalid raffle ID''
     | Some rid \<Rightarrow>
        (case cached of
           Some c \<Rightarrow>
             \<lparr> status = 200,
               body = [(''success'', VBool True), (''data'', VData c), (''cached'', VBool True),
                       (''source'', VStr ''redis'')] \<rparr>
         | None \<Rightarrow>
            (case service rid (limit_or limit 50) of
               Inl error \<Rightarrow> failure 500 ''Failed to fetch raffle activity''
             | Inr activities \<Rightarrow>
                 \<lparr> status = 200,
                   body = [(''success'', VBool True), (''data'', VData activities),
                           (''cached'', VBool False), (''source'', VStr ''indexer'')] \<rparr>)))"

definition raffle_leaderboard ::
  "'d option \<Rightarrow> (js_exception + 'd option) \<Rightarrow> 'd \<Rightarrow> 'd response" where
  "raffle_leaderboard redisCache supabaseCache placeholder =
    (case redisCache of
       Some c \<Rightarrow>
         \<lparr> status = 200,
           body = [(''success'', VBool True), (''data'', VData c), (''cached'', VBool True),
                   (''source'', VStr ''redis'')] \<rparr>
     | None \<Rightarrow>
        (case supabaseCache of
           Inl error \<Rightarrow> failure 500 ''Failed to fetch leaderboard''
         | Inr (Some c) \<Rightarrow>
             \<lparr> status = 200,
               body = [(''success'', VBool True), (''data'', VData c), (''cached'', VBool True),
                       (''source'', VStr ''supabase'')] \<rparr>
         | Inr None \<Rightarrow>
             \<lparr> status = 200,
               body = [(''success'', VBool True), (''data'', VData placeholder),
                       (''cached'', VBool False), (''source'', VStr ''computed'')] \<rparr>))"

section \<open>Specification predicates and sample inputs\<close>

text \<open>
  What the specification asks of a leaderboard computed from the purchase records
  \<open>purchases\<close> with the limit \<open>limit\<close>: at most \<open>limit\<close> entries, one per buyer, each the
  aggregate of that buyer's purchases, in descending order of \<open>totalTickets\<close>, ranked from 1.
\<close>

definition is_leaderboard_of :: "RaffleActivity list \<Rightarrow> int \<Rightarrow> LeaderboardEntry list \<Rightarrow> bool" where
  "is_leaderboard_of purchases limit lb \<longleftrightarrow>
     int (length lb) \<le> limit
   \<and> distinct (map address lb)
   \<and> (\<forall>e \<in> set lb.
         address e \<noteq> []
       \<and> (\<exists>a \<in> set purchases. buyer a = Some (address e))
       \<and> totalTickets e =
           (\<Sum>a \<leftarrow> filter (\<lambda>a. buyer a = Some (address e)) purchases. or_zero (ticketCount a))
       \<and> totalSpent e =
           (\<Sum>a \<leftarrow> filter (\<lambda>a. buyer a = Some (address e)) purchases. or_zero (totalPaid a)))
   \<and> (\<forall>i \<in> {0 ..< length lb - 1}. totalTickets (lb ! Suc i) \<le> totalTickets (lb ! i))
   \<and> (\<forall>i \<in> {0 ..< length lb}. rank (lb ! i) = int i + 1)"

text \<open>Sample records: a purchase and a finalization, as \<open>parseEventData\<close> builds them.\<close>

definition sample_purchase :: "string \<Rightarrow> string \<Rightarrow> rat \<Rightarrow> rat \<Rightarrow> rat \<Rightarrow> RaffleActivity" where
  "sample_purchase version b rid n paid =
     \<lparr> type = ticket_purchase, buyer = Some b, creator = None, winner = None,
       raffleId = Num rid, ticketCount = Some (Num n), totalPaid = Some (Num paid),
       prizeAmount = None, timestamp = ''2024-01-01T00:00:00.000Z'',
       transactionVersion = version, blockHeight = Num 1 \<rparr>"

definition sample_finalized :: "string \<Rightarrow> string \<Rightarrow> rat \<Rightarrow> RaffleActivity" where
  "sample_finalized version w rid =
     \<lparr> type = raffle_finalized, buyer = None, creator = None, winner = Some w,
       raffleId = Num rid, ticketCount = None, totalPaid = None,
       prizeAmount = Some (Num 1), timestamp = ''2024-01-01T00:00:00.000Z'',
       transactionVersion = version, blockHeight = Num 1 \<rparr>"

section \<open>Proof-side views of the grouping\<close>

text \<open>The running totals of a buyer in the map, 0 for a buyer not yet in it.\<close>

definition tk :: "(string \<times> user_stat) list \<Rightarrow> string \<Rightarrow> rat" where
  "tk m b = (case map_of m b of Some e \<Rightarrow> tickets e | None \<Rightarrow> 0)"

definition sp :: "(string \<times> user_stat) list \<Rightarrow> string \<Rightarrow> rat" where
  "sp m b = (case map_of m b of Some e \<Rightarrow> spent e | None \<Rightarrow> 0)"

definition buyer_sum :: "(RaffleActivity \<Rightarrow> jsnum option) \<Rightarrow> string \<Rightarrow> RaffleActivity list \<Rightarrow> rat" where
  "buyer_sum f b xs = sum_list (map (\<lambda>a. or_zero (f a)) (filter (\<lambda>a. buyer a = Some b) xs))"

text \<open>What a grouping step must satisfy; both \<open>forEach\<close> bodies do.\<close>

definition grouping_step ::
  "(RaffleActivity \<Rightarrow> (string \<times> user_stat) list \<Rightarrow> (string \<times> user_stat) list) \<Rightarrow> bool" where
  "grouping_step step \<longleftrightarrow>
     (\<forall>a m b. tk (step a m) b = tk m b + (if buyer a = Some b then or_zero (ticketCount a) else 0))
   \<and> (\<forall>a m b. sp (step a m) b = sp m b + (if buyer a = Some b then or_zero (totalPaid a) else 0))
   \<and> (\<forall>a m. fst ` set (step a m) = (case buyer a of None \<Rightarrow> {} | Some b \<Rightarrow> {b}) \<union> fst ` set m)
   \<and> (\<forall>a m. distinct (map fst m) \<longrightarrow> distinct (map fst (step a m)))"

text \<open>The tail of both leaderboard functions: sort, slice, rank.\<close>

definition finish :: "LeaderboardEntry list \<Rightarrow> int \<Rightarrow> LeaderboardEntry list" where
  "finish entries limit = assign_ranks (slice0 (sort_desc entries) limit)"

section \<open>Specification predicates and sample inputs for the parser\<close>

text \<open>
  An event is recognised when its type tag names one of the event kinds the parser
  knows, and well formed when, besides, its payload is an object. An event without a
  type tag, with an unknown tag or with a payload that cannot be read is malformed.
\<close>

definition recognised :: "raw_event \<Rightarrow> bool" where
  "recognised event \<longleftrightarrow>
     list_ex (tag_includes (eventType event))
       [''BuyTicketEvent'', ''CreateRaffleEvent'', ''RaffleCreatedEvent'',
        ''FinalizeRaffleEvent'', ''RaffleFinalizedEvent'']"

definition well_formed :: "raw_event \<Rightarrow> bool" where
  "well_formed event \<longleftrightarrow>
     recognised event \<and> (case ev_data event of PObject d \<Rightarrow> True | _ \<Rightarrow> False)"



text \<open>
  A sample environment for concrete evaluations. Its conversions agree with JavaScript
  on strings of decimal digits and on natural numbers; other numeric syntax is not
  recognised by it.
\<close>

definition digit_val :: "char \<Rightarrow> nat option" where
  "digit_val c = map_of (zip ''0123456789'' [0, 1, 2, 3, 4, 5, 6, 7, 8, 9]) c"

fun digits_value :: "string \<Rightarrow> nat \<Rightarrow> nat option" where
  "digits_value [] acc = Some acc"
| "digits_value (c # cs) acc =
     (case digit_val c of None \<Rightarrow> None | Some d \<Rightarrow> digits_value cs (10 * acc + d))"

definition sample_Number :: "string \<Rightarrow> jsnum" where
  "sample_Number s = (case digits_value s 0 of Some n \<Rightarrow> Num (of_nat n) | None \<Rightarrow> NaN)"

definition sample_parseInt :: "string \<Rightarrow> jsnum" where
  "sample_parseInt s = (if s = [] then NaN else sample_Number s)"

fun nat_digits :: "nat \<Rightarrow> nat \<Rightarrow> string" where
  "nat_digits 0 n = []"
| "nat_digits (Suc fuel) n =
     (if n < 10 then [char_of (48 + n)]
      else nat_digits fuel (n div 10) @ [char_of (48 + n mod 10)])"

definition sample_String :: "jsnum \<Rightarrow> string" where
  "sample_String n = (case n of NaN \<Rightarrow> ''NaN'' | Num x \<Rightarrow> nat_digits 20 (nat \<lfloor>x\<rfloor>))"

definition sample_builtins :: builtins where
  "sample_builtins =
     \<lparr> Number_str = sample_Number, parseInt_str = sample_parseInt,
       String_num = sample_String, now_iso = ''2024-01-01T00:00:00.000Z'' \<rparr>"

text \<open>A purchase as the indexer delivers it, and the same event without its type tags.\<close>

definition sample_buy_event :: raw_event where
  "sample_buy_event =
     \<lparr> ev_type = Some ''0x1::draw_v5::BuyTicketEvent'',
       ev_indexed_type = Some ''0x1::draw_v5::BuyTicketEvent'',
       ev_data = PObject [(''buyer'', JStr ''0xA''), (''raffle_id'', JStr ''5''),
                          (''ticket_count'', JStr ''3''), (''total_paid'', JStr ''150000000'')],
       ev_transaction_version = JStr ''101'',
       ev_transaction_block_height = JNum (Num 7) \<rparr>"

definition sample_untagged_event :: raw_event where
  "sample_untagged_event = sample_buy_event \<lparr> ev_type := None, ev_indexed_type := None \<rparr>"

definition sample_parsed_purchase :: RaffleActivity where
  "sample_parsed_purchase =
     \<lparr> type = ticket_purchase, buyer = Some ''0xA'', creator = None, winner = None,
       raffleId = Num 5, ticketCount = Some (Num 3), totalPaid = Some (Num (3/2)),
       prizeAmount = None, timestamp = ''2024-01-01T00:00:00.000Z'',
       transactionVersion = ''101'', blockHeight = Num 7 \<rparr>"


section \<open>Sample inputs for the write path and the notification triggers\<close>

definition analytics_on :: analytics_config where
  "analytics_on = \<lparr> ENABLE_ANALYTICS = True, supabaseAdmin = True \<rparr>"

definition analytics_off :: analytics_config where
  "analytics_off = \<lparr> ENABLE_ANALYTICS = False, supabaseAdmin = True \<rparr>"

definition empty_world :: world where
  "empty_world = \<lparr> redis = \<lparr> stored = {}, connected = True \<rparr>, calls = [] \<rparr>"

definition sample_metadata :: RaffleMetadata where
  "sample_metadata = RaffleMetadata ''Raffle'' ''0xC'' (Num 10)"

text \<open>An environment in which every call returns, and one in which
  \<open>createNotification\<close> raises.\<close>

definition all_return :: "ext_call \<Rightarrow> bool" where
  "all_return c = True"

fun notification_raises :: "ext_call \<Rightarrow> bool" where
  "notification_raises (UpsertUserTicket b r n p) = True"
| "notification_raises (CreateNotification u t r a m h) = False"

section \<open>Specification predicates for the read endpoints\<close>

text \<open>An envelope has a boolean \<open>success\<close>; it succeeded when that is \<open>true\<close>.\<close>

definition is_envelope :: "'d response \<Rightarrow> bool" where
  "is_envelope r \<longleftrightarrow>
     map_of (body r) ''success'' = Some (VBool True)
   \<or> map_of (body r) ''success'' = Some (VBool False)"

definition succeeded :: "'d response \<Rightarrow> bool" where
  "succeeded r \<longleftrightarrow> map_of (body r) ''success'' = Some (VBool True)"

text \<open>The envelope carries a boolean \<open>cached\<close> and a \<open>source\<close> out of \<open>tags\<close>.\<close>

definition tagged_with :: "string list \<Rightarrow> 'd response \<Rightarrow> bool" where
  "tagged_with tags r \<longleftrightarrow>
     (map_of (body r) ''cached'' = Some (VBool True)
        \<or> map_of (body r) ''cached'' = Some (VBool False))
   \<and> list_ex (\<lambda>tag. map_of (body r) ''source'' = Some (VStr tag)) tags"

text \<open>The envelope has neither of the two properties.\<close>

definition untagged :: "'d response \<Rightarrow> bool" where
  "untagged r \<longleftrightarrow> map_of (body r) ''cached'' = None \<and> map_of (body r) ''source'' = None"

text \<open>The tags of the specification, and the tags the handlers write.\<close>

definition spec_tags :: "string list" where
  "spec_tags = [''fast-tier'', ''slow-tier'', ''computed'']"

definition code_tags :: "string list" where
  "code_tags = [''redis'', ''indexer'', ''supabase'', ''computed'']"

section \<open>Statistics: consistency of the snapshot\<close>

lemma foldl_add_sum: "foldl (\<lambda>s a. s + f a) (z::rat) xs = z + sum_list (map f xs)"
  by (induction xs arbitrary: z) simp_all

lemma sum_tickets_sum_list: "sum_tickets xs = sum_list (map (\<lambda>a. or_zero (ticketCount a)) xs)"
  by (simp add: sum_tickets_def foldl_add_sum)

lemma sum_paid_sum_list: "sum_paid xs = sum_list (map (\<lambda>a. or_zero (totalPaid a)) xs)"
  by (simp add: sum_paid_def foldl_add_sum)

lemma or_zero_cases: "or_zero v = (case v of Some (Num x) \<Rightarrow> x | _ \<Rightarrow> 0)"
  by (cases v rule: or_zero.cases) simp_all



text \<open>
  C10. For every raffle id and every list of activity records (also one without any record
  of that raffle) getRaffleStats reports totalRaffles = 1, completedRaffles = 1 exactly
  when the list holds a raffle_finalized record of that raffle and 0 otherwise, and
  activeRaffles = 1 - completedRaffles, so the two add up to 1; a raffle never seen is
  one active raffle.
\<close>

theorem getRaffleStats_counts:
  "totalRaffles (getRaffleStats None acts rid) = 1
   \<and> completedRaffles (getRaffleStats None acts rid)
       = (if \<exists>a \<in> set acts. type a = raffle_finalized \<and> strict_eq (raffleId a) rid then 1 else 0)
   \<and> activeRaffles (getRaffleStats None acts rid)
       = 1 - completedRaffles (getRaffleStats None acts rid)
   \<and> activeRaffles (getRaffleStats None acts rid) + completedRaffles (getRaffleStats None acts rid) = 1
   \<and> ((\<forall>a \<in> set acts. \<not> strict_eq (raffleId a) rid) \<longrightarrow>
        activeRaffles (getRaffleStats None acts rid) = 1
        \<and> completedRaffles (getRaffleStats None acts rid) = 0)"
  by (auto simp add: getRaffleStats_def Let_def list_ex_iff)

theorem getRaffleStats_counts_witness:
  "list_all (\<lambda>a. \<not> strict_eq (raffleId a) (Num 9))
     [sample_purchase ''1'' ''0xA'' 5 3 (3/2), sample_finalized ''3'' ''0xB'' 6]
   \<and> totalRaffles (getRaffleStats None
        [sample_purchase ''1'' ''0xA'' 5 3 (3/2), sample_finalized ''3'' ''0xB'' 6] (Num 9)) = 1
   \<and> activeRaffles (getRaffleStats None
        [sample_purchase ''1'' ''0xA'' 5 3 (3/2), sample_finalized ''3'' ''0xB'' 6] (Num 9)) = 1
   \<and> completedRaffles (getRaffleStats None
        [sample_purchase ''1'' ''0xA'' 5 3 (3/2), sample_finalized ''3'' ''0xB'' 6] (Num 9)) = 0
   \<and> completedRaffles (getRaffleStats None
        [sample_purchase ''1'' ''0xA'' 5 3 (3/2), sample_finalized ''3'' ''0xB'' 6] (Num 6)) = 1"
  using getRaffleStats_counts
    [of "[sample_purchase ''1'' ''0xA'' 5 3 (3/2), sample_finalized ''3'' ''0xB'' 6]" "Num 9"]
    getRaffleStats_counts
    [of "[sample_purchase ''1'' ''0xA'' 5 3 (3/2), sample_finalized ''3'' ''0xB'' 6]" "Num 6"]
  by (simp add: sample_purchase_def sample_finalized_def)

section \<open>Leaderboards: grouping\<close>

lemma map_of_map_set: "map_of (map_set k v m) = (map_of m)(k \<mapsto> v)"
  by (induction m) (auto simp add: fun_eq_iff)

lemma map_fst_map_set:
  "map fst (map_set k v m) = (if k \<in> fst ` set m then map fst m else map fst m @ [k])"
  by (induction m) (fastforce simp add: image_iff)+

lemma keys_map_set: "fst ` set (map_set k v m) = insert k (fst ` set m)"
proof -
  have "set (map fst (map_set k v m)) = insert k (fst ` set m)"
    unfolding map_fst_map_set by auto
  then show ?thesis by simp
qed

lemma distinct_map_set: "distinct (map fst m) \<Longrightarrow> distinct (map fst (map_set k v m))"
  unfolding map_fst_map_set by auto

lemma buyer_sum_Cons:
  "buyer_sum f b (a # xs) = (if buyer a = Some b then or_zero (f a) else 0) + buyer_sum f b xs"
  by (simp add: buyer_sum_def)

lemma tk_add_global:
  "tk (add_global a m) b = tk m b + (if buyer a = Some b then or_zero (ticketCount a) else 0)"
  by (auto simp add: tk_def add_global_def Let_def map_of_map_set split: option.splits)

lemma sp_add_global:
  "sp (add_global a m) b = sp m b + (if buyer a = Some b then or_zero (totalPaid a) else 0)"
  by (auto simp add: sp_def add_global_def Let_def map_of_map_set split: option.splits)

lemma tk_add_raffle:
  "tk (add_raffle a m) b = tk m b + (if buyer a = Some b then or_zero (ticketCount a) else 0)"
  by (auto simp add: tk_def add_raffle_def Let_def map_of_map_set split: option.splits)

lemma sp_add_raffle:
  "sp (add_raffle a m) b = sp m b + (if buyer a = Some b then or_zero (totalPaid a) else 0)"
  by (auto simp add: sp_def add_raffle_def Let_def map_of_map_set split: option.splits)

lemma keys_add_global:
  "fst ` set (add_global a m) = (case buyer a of None \<Rightarrow> {} | Some b \<Rightarrow> {b}) \<union> fst ` set m"
  by (simp add: add_global_def Let_def keys_map_set split: option.splits)

lemma keys_add_raffle:
  "fst ` set (add_raffle a m) = (case buyer a of None \<Rightarrow> {} | Some b \<Rightarrow> {b}) \<union> fst ` set m"
  by (simp add: add_raffle_def Let_def keys_map_set split: option.splits)

lemma distinct_add_global: "distinct (map fst m) \<Longrightarrow> distinct (map fst (add_global a m))"
  by (simp add: add_global_def Let_def distinct_map_set split: option.splits)

lemma distinct_add_raffle: "distinct (map fst m) \<Longrightarrow> distinct (map fst (add_raffle a m))"
  by (simp add: add_raffle_def Let_def distinct_map_set split: option.splits)

lemma grouping_step_global: "grouping_step add_global"
  unfolding grouping_step_def
  using tk_add_global sp_add_global keys_add_global distinct_add_global by blast

lemma grouping_step_raffle: "grouping_step add_raffle"
  unfolding grouping_step_def
  using tk_add_raffle sp_add_raffle keys_add_raffle distinct_add_raffle by blast

lemma fold_tk:
  assumes "grouping_step step"
  shows "tk (fold step xs m) b = tk m b + buyer_sum ticketCount b xs"
proof (induction xs arbitrary: m)
  case Nil
  then show ?case by (simp add: buyer_sum_def)
next
  case (Cons a xs)
  have "tk (step a m) b = tk m b + (if buyer a = Some b then or_zero (ticketCount a) else 0)"
    using assms by (simp add: grouping_step_def)
  then show ?case by (simp add: Cons.IH buyer_sum_Cons)
qed

lemma fold_sp:
  assumes "grouping_step step"
  shows "sp (fold step xs m) b = sp m b + buyer_sum totalPaid b xs"
proof (induction xs arbitrary: m)
  case Nil
  then show ?case by (simp add: buyer_sum_def)
next
  case (Cons a xs)
  have "sp (step a m) b = sp m b + (if buyer a = Some b then or_zero (totalPaid a) else 0)"
    using assms by (simp add: grouping_step_def)
  then show ?case by (simp add: Cons.IH buyer_sum_Cons)
qed

lemma fold_keys:
  assumes "grouping_step step"
  shows "fst ` set (fold step xs m) = {b. \<exists>a \<in> set xs. buyer a = Some b} \<union> fst ` set m"
proof (induction xs arbitrary: m)
  case Nil
  then show ?case by simp
next
  case (Cons a xs)
  have k: "fst ` set (step a m) = (case buyer a of None \<Rightarrow> {} | Some b \<Rightarrow> {b}) \<union> fst ` set m"
    using assms by (simp add: grouping_step_def)
  show ?case
    by (simp only: fold_simps Cons.IH k) (auto split: option.splits)
qed

lemma fold_distinct:
  assumes "grouping_step step" and "distinct (map fst m)"
  shows "distinct (map fst (fold step xs m))"
  using assms(2)
proof (induction xs arbitrary: m)
  case Nil
  then show ?case by simp
next
  case (Cons a xs)
  have "distinct (map fst (step a m))"
    using assms(1) Cons.prems by (simp add: grouping_step_def)
  then show ?case by (simp add: Cons.IH)
qed

lemma buyer_sum_filter:
  assumes "b \<noteq> []"
  shows "buyer_sum f b (filter (\<lambda>a. P a \<and> truthy_str (buyer a)) acts)
       = (\<Sum>a \<leftarrow> filter (\<lambda>a. buyer a = Some b) (filter P acts). or_zero (f a))"
proof -
  have "filter (\<lambda>a. buyer a = Some b) (filter (\<lambda>a. P a \<and> truthy_str (buyer a)) acts)
      = filter (\<lambda>a. buyer a = Some b) (filter P acts)"
    using assms by (auto simp add: filter_filter intro: filter_cong)
  then show ?thesis by (simp add: buyer_sum_def)
qed

section \<open>Leaderboards: sort, slice and rank\<close>

lemma length_assign_ranks: "length (assign_ranks xs) = length xs"
  by (simp add: assign_ranks_def)

lemma nth_assign_ranks:
  "i < length xs \<Longrightarrow> assign_ranks xs ! i = (xs ! i) \<lparr> rank := int i + 1 \<rparr>"
  by (simp add: assign_ranks_def nth_enumerate_eq)

lemma slice0_take: "\<exists>n. slice0 xs limit = take n xs"
  by (auto simp add: slice0_def)

lemma length_slice0: "0 \<le> limit \<Longrightarrow> int (length (slice0 xs limit)) \<le> limit"
  by (simp add: slice0_def)

lemma sorted_sort_desc:
  "sorted_wrt (\<lambda>a b. totalTickets b \<le> totalTickets a) (sort_desc xs)"
proof -
  have "sorted (map (\<lambda>e. - totalTickets e) (sort_desc xs))"
    unfolding sort_desc_def by (rule sorted_sort_key)
  then show ?thesis by (simp add: sorted_map)
qed

lemma finish_length: "0 \<le> limit \<Longrightarrow> int (length (finish entries limit)) \<le> limit"
  by (simp add: finish_def length_assign_ranks length_slice0)

lemma finish_rank:
  "i < length (finish entries limit) \<Longrightarrow> rank (finish entries limit ! i) = int i + 1"
  by (simp add: finish_def length_assign_ranks nth_assign_ranks)

lemma finish_nth:
  assumes "i < length (finish entries limit)"
  obtains n where "finish entries limit ! i = (take n (sort_desc entries) ! i) \<lparr> rank := int i + 1 \<rparr>"
    and "i < length (take n (sort_desc entries))"
proof -
  obtain n where n: "slice0 (sort_desc entries) limit = take n (sort_desc entries)"
    using slice0_take by blast
  show ?thesis
    using assms that [of n] by (simp add: finish_def n length_assign_ranks nth_assign_ranks)
qed

lemma finish_sorted:
  assumes "Suc i < length (finish entries limit)"
  shows "totalTickets (finish entries limit ! Suc i) \<le> totalTickets (finish entries limit ! i)"
proof -
  obtain n where n: "slice0 (sort_desc entries) limit = take n (sort_desc entries)"
    using slice0_take by blast
  let ?t = "take n (sort_desc entries)"
  have len: "Suc i < length ?t"
    using assms by (simp add: finish_def n length_assign_ranks)
  have "sorted_wrt (\<lambda>a b. totalTickets b \<le> totalTickets a) ?t"
    using sorted_sort_desc by (rule sorted_wrt_take)
  then have "totalTickets (?t ! Suc i) \<le> totalTickets (?t ! i)"
    using len by (simp add: sorted_wrt_iff_nth_less)
  then show ?thesis
    using len by (simp add: finish_def n nth_assign_ranks)
qed

lemma finish_addresses:
  "\<exists>n. map address (finish entries limit) = take n (map address (sort_desc entries))"
proof -
  obtain n where n: "slice0 (sort_desc entries) limit = take n (sort_desc entries)"
    using slice0_take by blast
  have "map address (assign_ranks ys) = map address ys" for ys
    by (rule nth_equalityI) (simp_all add: length_assign_ranks nth_assign_ranks)
  then show ?thesis by (auto simp add: finish_def n take_map)
qed

lemma finish_distinct:
  assumes "distinct (map address entries)"
  shows "distinct (map address (finish entries limit))"
proof -
  have "distinct (map address (sort_desc entries))"
    using assms by (simp add: distinct_map sort_desc_def)
  then show ?thesis
    using finish_addresses [of entries limit] by (auto simp add: distinct_take)
qed

lemma finish_member:
  assumes "e \<in> set (finish entries limit)"
  obtains e0 where "e0 \<in> set entries" and "address e = address e0"
    and "totalTickets e = totalTickets e0" and "totalSpent e = totalSpent e0"
proof -
  obtain i where i: "i < length (finish entries limit)" and e: "e = finish entries limit ! i"
    using assms by (auto simp add: in_set_conv_nth)
  obtain n where nth: "finish entries limit ! i = (take n (sort_desc entries) ! i) \<lparr> rank := int i + 1 \<rparr>"
    and len: "i < length (take n (sort_desc entries))"
    using i by (rule finish_nth)
  let ?e0 = "take n (sort_desc entries) ! i"
  have "?e0 \<in> set (take n (sort_desc entries))"
    using len by (rule nth_mem)
  then have "?e0 \<in> set (sort_desc entries)"
    by (rule in_set_takeD)
  then have "?e0 \<in> set entries"
    by (simp add: sort_desc_def)
  then show ?thesis
    using that [of ?e0] e nth by simp
qed

section \<open>Leaderboards: the entries are the buyers' aggregates\<close>

lemma leaderboard_members:
  assumes step: "grouping_step step"
    and mk: "\<And>addr st. address (mk (addr, st)) = addr \<and> totalTickets (mk (addr, st)) = tickets st
                \<and> totalSpent (mk (addr, st)) = spent st"
    and Q: "\<And>a. Q a \<longleftrightarrow> P a \<and> truthy_str (buyer a)"
    and mem: "e \<in> set (finish (map mk (fold step (filter Q acts) [])) limit)"
  shows "address e \<noteq> []
       \<and> (\<exists>a \<in> set (filter P acts). buyer a = Some (address e))
       \<and> totalTickets e =
           (\<Sum>a \<leftarrow> filter (\<lambda>a. buyer a = Some (address e)) (filter P acts). or_zero (ticketCount a))
       \<and> totalSpent e =
           (\<Sum>a \<leftarrow> filter (\<lambda>a. buyer a = Some (address e)) (filter P acts). or_zero (totalPaid a))"
proof -
  have Q_eq: "Q = (\<lambda>a. P a \<and> truthy_str (buyer a))"
    using Q by (simp add: fun_eq_iff)
  let ?xs = "filter (\<lambda>a. P a \<and> truthy_str (buyer a)) acts"
  let ?m = "fold step ?xs []"
  have dist: "distinct (map fst ?m)"
    using step by (rule fold_distinct) simp
  have keys: "fst ` set ?m = {b. \<exists>a \<in> set ?xs. buyer a = Some b}"
    using fold_keys [OF step, of ?xs "[]"] by simp
  obtain e0 where e0: "e0 \<in> set (map mk ?m)" and eq: "address e = address e0"
      "totalTickets e = totalTickets e0" "totalSpent e = totalSpent e0"
    using mem unfolding Q_eq by (rule finish_member)
  obtain b st where bst: "(b, st) \<in> set ?m" and e0_def: "e0 = mk (b, st)"
    using e0 by auto
  have lookup: "map_of ?m b = Some st"
    using dist bst by simp
  have "b \<in> fst ` set ?m"
    using bst by force
  then obtain a where a: "a \<in> set ?xs" "buyer a = Some b"
    using keys by auto
  then have nonempty: "b \<noteq> []" by auto
  have "tickets st = tk ?m b"
    using lookup by (simp add: tk_def)
  also have "\<dots> = buyer_sum ticketCount b ?xs"
    using fold_tk [OF step, of ?xs "[]" b] by (simp add: tk_def)
  finally have t: "tickets st
      = (\<Sum>a \<leftarrow> filter (\<lambda>a. buyer a = Some b) (filter P acts). or_zero (ticketCount a))"
    using nonempty by (simp add: buyer_sum_filter)
  have "spent st = sp ?m b"
    using lookup by (simp add: sp_def)
  also have "\<dots> = buyer_sum totalPaid b ?xs"
    using fold_sp [OF step, of ?xs "[]" b] by (simp add: sp_def)
  finally have s: "spent st
      = (\<Sum>a \<leftarrow> filter (\<lambda>a. buyer a = Some b) (filter P acts). or_zero (totalPaid a))"
    using nonempty by (simp add: buyer_sum_filter)
  have "address e = b" "totalTickets e = tickets st" "totalSpent e = spent st"
    using eq e0_def mk by simp_all
  then show ?thesis
    using nonempty a t s by auto
qed

lemma leaderboard_generic:
  assumes step: "grouping_step step"
    and mk: "\<And>addr st. address (mk (addr, st)) = addr \<and> totalTickets (mk (addr, st)) = tickets st
                \<and> totalSpent (mk (addr, st)) = spent st"
    and lim: "0 \<le> limit"
    and Q: "\<And>a. Q a \<longleftrightarrow> P a \<and> truthy_str (buyer a)"
  shows "is_leaderboard_of (filter P acts) limit (finish (map mk (fold step (filter Q acts) [])) limit)"
proof -
  let ?m = "fold step (filter Q acts) []"
  let ?entries = "map mk ?m"
  let ?lb = "finish ?entries limit"
  have dist: "distinct (map fst ?m)"
    using step by (rule fold_distinct) simp
  have addr: "map address ?entries = map fst ?m"
    using mk by (auto simp add: comp_def)
  have "int (length ?lb) \<le> limit"
    using lim by (rule finish_length)
  moreover have "distinct (map address ?lb)"
  proof (rule finish_distinct)
    show "distinct (map address ?entries)"
      using dist by (simp only: addr)
  qed
  moreover have "\<forall>i \<in> {0 ..< length ?lb - 1}. totalTickets (?lb ! Suc i) \<le> totalTickets (?lb ! i)"
    by (auto intro: finish_sorted)
  moreover have "\<forall>i \<in> {0 ..< length ?lb}. rank (?lb ! i) = int i + 1"
    by (auto intro: finish_rank)
  ultimately show ?thesis
    unfolding is_leaderboard_of_def
    using leaderboard_members [OF step mk Q, of _ acts limit] by blast
qed

lemma global_unfold:
  "getGlobalLeaderboard None acts limit =
     finish (map (\<lambda>(addr, stats). \<lparr> address = addr, totalTickets = tickets stats,
               totalSpent = spent stats, raffleCount = int (length (raffles stats)), rank = 0 \<rparr>)
       (fold add_global
          (filter (\<lambda>a. type a = ticket_purchase \<and> truthy_str (buyer a)) acts) [])) limit"
  by (simp add: getGlobalLeaderboard_def finish_def)

lemma raffle_unfold:
  "getRaffleLeaderboard None acts rid limit =
     finish (map (\<lambda>(addr, stats). \<lparr> address = addr, totalTickets = tickets stats,
               totalSpent = spent stats, raffleCount = 1, rank = 0 \<rparr>)
       (fold add_raffle
          (filter (\<lambda>a. type a = ticket_purchase \<and> truthy_str (buyer a)
                       \<and> strict_eq (raffleId a) rid) acts) [])) limit"
  by (simp add: getRaffleLeaderboard_def finish_def)

text \<open>
  C1 (amended). For every list of activity records and every limit that is not negative,
  the leaderboard computed by getGlobalLeaderboard, and by getRaffleLeaderboard for any
  raffle, holds only aggregates of the ticket_purchase records (of that raffle) grouped
  by buyer, one entry per buyer; the entry at rank i has totalTickets at least that of
  the entry at rank i + 1; the ranks count from 1 in the sorted order; the length is at
  most the limit.
\<close>

theorem leaderboard_sorted_ranked_bounded:
  assumes "0 \<le> limit"
  shows "is_leaderboard_of (filter (\<lambda>a. type a = ticket_purchase) acts) limit
           (getGlobalLeaderboard None acts limit)
       \<and> is_leaderboard_of
           (filter (\<lambda>a. type a = ticket_purchase \<and> strict_eq (raffleId a) rid) acts) limit
           (getRaffleLeaderboard None acts rid limit)"
proof
  show "is_leaderboard_of (filter (\<lambda>a. type a = ticket_purchase) acts) limit
           (getGlobalLeaderboard None acts limit)"
    unfolding global_unfold
    by (rule leaderboard_generic [OF grouping_step_global _ assms]) simp_all
  show "is_leaderboard_of
           (filter (\<lambda>a. type a = ticket_purchase \<and> strict_eq (raffleId a) rid) acts) limit
           (getRaffleLeaderboard None acts rid limit)"
    unfolding raffle_unfold
    by (rule leaderboard_generic [OF grouping_step_raffle _ assms]) auto
qed

theorem leaderboard_sorted_ranked_bounded_witness:
  "(0::int) \<le> 100
   \<and> is_leaderboard_of
       (filter (\<lambda>a. type a = ticket_purchase)
          [sample_purchase ''1'' ''0xA'' 5 3 (3/2), sample_purchase ''2'' ''0xA'' 5 2 1]) 100
       (getGlobalLeaderboard None
          [sample_purchase ''1'' ''0xA'' 5 3 (3/2), sample_purchase ''2'' ''0xA'' 5 2 1] 100)
   \<and> getRaffleLeaderboard None
        [sample_purchase ''1'' ''0xA'' 5 3 (3/2), sample_purchase ''2'' ''0xA'' 5 2 1] (Num 5) 100
      = [\<lparr> address = ''0xA'', totalTickets = 5, totalSpent = 5/2, raffleCount = 1, rank = 1 \<rparr>]"
proof -
  have "getRaffleLeaderboard None
        [sample_purchase ''1'' ''0xA'' 5 3 (3/2), sample_purchase ''2'' ''0xA'' 5 2 1] (Num 5) 100
      = [\<lparr> address = ''0xA'', totalTickets = 5, totalSpent = 5/2, raffleCount = 1, rank = 1 \<rparr>]"
    by (simp add: getRaffleLeaderboard_def sample_purchase_def add_raffle_def sort_desc_def
        slice0_def assign_ranks_def Let_def)
  then show ?thesis
    using leaderboard_sorted_ranked_bounded
      [of 100 "[sample_purchase ''1'' ''0xA'' 5 3 (3/2), sample_purchase ''2'' ''0xA'' 5 2 1]"
          "Num 5"]
    by simp
qed

text \<open>
  C1 as stated, for every limit, fails at the limit -1: \<open>slice(0, -1)\<close> drops the last
  entry only, and the one entry left is more than -1 entries.
\<close>

theorem leaderboard_negative_limit_counterexample:
  "getGlobalLeaderboard None
     [sample_purchase ''1'' ''0xA'' 5 3 (3/2), sample_purchase ''2'' ''0xB'' 5 2 1] (- 1)
   = [\<lparr> address = ''0xA'', totalTickets = 3, totalSpent = 3/2, raffleCount = 1, rank = 1 \<rparr>]
   \<and> \<not> int (length (getGlobalLeaderboard None
        [sample_purchase ''1'' ''0xA'' 5 3 (3/2), sample_purchase ''2'' ''0xB'' 5 2 1] (- 1)))
       \<le> - 1"
  by (simp add: getGlobalLeaderboard_def sample_purchase_def add_global_def sort_desc_def
      slice0_def assign_ranks_def Let_def set_add_def)

section \<open>Sums: what a record contributes\<close>

text \<open>
  C7 (amended). In the sums of the aggregation functions (totalTickets and totalSpent of
  a leaderboard entry, totalTicketsSold and totalVolume of a snapshot) a record whose
  ticketCount or totalPaid is absent or NaN contributes 0, and a record with a number
  contributes that number, also when it is negative.
\<close>

theorem sums_add_every_number:
  "totalTicketsSold (getPlatformStats None acts)
     = (\<Sum>a \<leftarrow> filter (\<lambda>a. type a = ticket_purchase) acts.
          case ticketCount a of Some (Num x) \<Rightarrow> x | _ \<Rightarrow> 0)
   \<and> totalVolume (getPlatformStats None acts)
     = (\<Sum>a \<leftarrow> filter (\<lambda>a. type a = ticket_purchase) acts.
          case totalPaid a of Some (Num x) \<Rightarrow> x | _ \<Rightarrow> 0)
   \<and> (\<forall>e \<in> set (getGlobalLeaderboard None acts limit).
        totalTickets e
          = (\<Sum>a \<leftarrow> filter (\<lambda>a. buyer a = Some (address e))
                     (filter (\<lambda>a. type a = ticket_purchase) acts).
               case ticketCount a of Some (Num x) \<Rightarrow> x | _ \<Rightarrow> 0)
      \<and> totalSpent e
          = (\<Sum>a \<leftarrow> filter (\<lambda>a. buyer a = Some (address e))
                     (filter (\<lambda>a. type a = ticket_purchase) acts).
               case totalPaid a of Some (Num x) \<Rightarrow> x | _ \<Rightarrow> 0))"
proof -
  have stats: "totalTicketsSold (getPlatformStats None acts)
       = (\<Sum>a \<leftarrow> filter (\<lambda>a. type a = ticket_purchase) acts. or_zero (ticketCount a))"
    "totalVolume (getPlatformStats None acts)
       = (\<Sum>a \<leftarrow> filter (\<lambda>a. type a = ticket_purchase) acts. or_zero (totalPaid a))"
    by (simp_all add: getPlatformStats_def Let_def sum_tickets_sum_list sum_paid_sum_list)
  have board: "totalTickets e
          = (\<Sum>a \<leftarrow> filter (\<lambda>a. buyer a = Some (address e))
                     (filter (\<lambda>a. type a = ticket_purchase) acts). or_zero (ticketCount a))
      \<and> totalSpent e
          = (\<Sum>a \<leftarrow> filter (\<lambda>a. buyer a = Some (address e))
                     (filter (\<lambda>a. type a = ticket_purchase) acts). or_zero (totalPaid a))"
    if mem: "e \<in> set (getGlobalLeaderboard None acts limit)" for e
    using leaderboard_members [OF grouping_step_global _ _ mem [unfolded global_unfold],
        of "\<lambda>a. type a = ticket_purchase"]
    by simp
  show ?thesis
    using stats board unfolding or_zero_cases by blast
qed

theorem sums_add_every_number_witness:
  "totalTicketsSold (getPlatformStats None
      [sample_purchase ''1'' ''0xA'' 5 3 (3/2),
       (sample_purchase ''2'' ''0xA'' 5 0 0) \<lparr> ticketCount := None, totalPaid := Some NaN \<rparr>]) = 3
   \<and> totalVolume (getPlatformStats None
      [sample_purchase ''1'' ''0xA'' 5 3 (3/2),
       (sample_purchase ''2'' ''0xA'' 5 0 0) \<lparr> ticketCount := None, totalPaid := Some NaN \<rparr>]) = 3/2
   \<and> getGlobalLeaderboard None
      [sample_purchase ''1'' ''0xA'' 5 3 (3/2),
       (sample_purchase ''2'' ''0xA'' 5 0 0) \<lparr> ticketCount := None, totalPaid := Some NaN \<rparr>] 100
     = [\<lparr> address = ''0xA'', totalTickets = 3, totalSpent = 3/2, raffleCount = 1, rank = 1 \<rparr>]"
  using sums_add_every_number
    [of "[sample_purchase ''1'' ''0xA'' 5 3 (3/2),
          (sample_purchase ''2'' ''0xA'' 5 0 0) \<lparr> ticketCount := None, totalPaid := Some NaN \<rparr>]"
        100]
  by (simp add: getPlatformStats_def sum_tickets_def sum_paid_def getGlobalLeaderboard_def
      sample_purchase_def add_global_def sort_desc_def slice0_def assign_ranks_def Let_def
      set_add_def)

text \<open>
  C7 as stated fails on a negative ticketCount or totalPaid: \<open>-3 || 0\<close> is \<open>-3\<close>, so the
  record lowers the sums by 3 and by 1 where the claim has it contribute 0.
\<close>

theorem negative_count_counterexample:
  "totalTicketsSold (getPlatformStats None [sample_purchase ''1'' ''0xA'' 5 (- 3) (- 1)]) = - 3
   \<and> totalVolume (getPlatformStats None [sample_purchase ''1'' ''0xA'' 5 (- 3) (- 1)]) = - 1
   \<and> getGlobalLeaderboard None [sample_purchase ''1'' ''0xA'' 5 (- 3) (- 1)] 100
     = [\<lparr> address = ''0xA'', totalTickets = - 3, totalSpent = - 1, raffleCount = 1, rank = 1 \<rparr>]"
  by (simp add: getPlatformStats_def sum_tickets_def sum_paid_def getGlobalLeaderboard_def
      sample_purchase_def add_global_def sort_desc_def slice0_def assign_ranks_def Let_def
      set_add_def)

section \<open>Rounding to binary64\<close>


lemma exponent_bounds:
  "0 < x \<Longrightarrow> 2 powi binary_exponent x \<le> x \<and> x < 2 powi (binary_exponent x + 1)"
proof (induction x rule: binary_exponent.induct)
  case (1 x)
  show ?case
  proof (cases "2 \<le> x")
    case True
    have e: "binary_exponent x = binary_exponent (x / 2) + 1"
      using True "1.prems" by (subst binary_exponent.simps) simp
    have ih: "2 powi binary_exponent (x / 2) \<le> x / 2
        \<and> x / 2 < 2 powi (binary_exponent (x / 2) + 1)"
      using "1.IH"(1) True "1.prems" by simp
    show ?thesis
      using ih unfolding e by (simp add: power_int_add field_simps)
  next
    case False
    show ?thesis
    proof (cases "x < 1")
      case True
      have e: "binary_exponent x = binary_exponent (2 * x) - 1"
        using True False "1.prems" by (subst binary_exponent.simps) simp
      have ih: "2 powi binary_exponent (2 * x) \<le> 2 * x
          \<and> 2 * x < 2 powi (binary_exponent (2 * x) + 1)"
        using "1.IH"(2) True False "1.prems" by simp
      show ?thesis
        using ih unfolding e by (simp add: power_int_add power_int_diff field_simps)
    next
      case ge1: False
      have e: "binary_exponent x = 0"
        using ge1 False "1.prems" by (subst binary_exponent.simps) simp
      show ?thesis
        using ge1 False unfolding e by simp
    qed
  qed
qed


lemma round_half_even_of_int: "round_half_even (of_int n) = n"
  by (simp add: round_half_even_def)


text \<open>A value with a mantissa of at most 53 bits is a double: rounding leaves it.\<close>

lemma binary64_exact:
  assumes "\<bar>m\<bar> < 2 ^ 53" and "x = of_int m * 2 powi k"
  shows "binary64 x = x"
proof (cases "x = 0")
  case True
  then show ?thesis by (simp add: binary64_def)
next
  case False
  define e where "e = binary_exponent \<bar>x\<bar>"
  define u :: rat where "u = 2 powi (e - 52)"
  have low: "2 powi e \<le> \<bar>x\<bar>"
    using exponent_bounds [of "\<bar>x\<bar>"] False by (simp add: e_def)
  have "\<bar>x\<bar> = of_int \<bar>m\<bar> * 2 powi k"
    by (simp add: assms(2) abs_mult)
  also have "\<dots> < 2 ^ 53 * 2 powi k"
  proof (rule mult_strict_right_mono)
    have "(of_int \<bar>m\<bar> :: rat) < of_int (2 ^ 53)"
      using assms(1) by (simp only: of_int_less_iff)
    then show "(of_int \<bar>m\<bar> :: rat) < 2 ^ 53" by simp
    show "(0 :: rat) < 2 powi k" by simp
  qed
  also have "\<dots> = 2 powi (53 + k)"
    by (simp add: power_int_add)
  finally have lt: "(2 :: rat) powi e < 2 powi (53 + k)"
    using low by simp
  have "e < 53 + k"
  proof (rule ccontr)
    assume "\<not> e < 53 + k"
    then have "53 + k \<le> e" by simp
    then have "(2 :: rat) powi (53 + k) \<le> 2 powi e"
      by (rule power_int_increasing) simp
    then show False using lt by simp
  qed
  then have d: "0 \<le> k - (e - 52)" by simp
  have "x / u = of_int m * 2 powi (k - (e - 52))"
    by (simp add: assms(2) u_def power_int_diff)
  also have "\<dots> = of_int m * 2 ^ nat (k - (e - 52))"
    using d by (simp add: power_int_nonneg_exp)
  also have "\<dots> = of_int (m * 2 ^ nat (k - (e - 52)))"
    by simp
  finally have "round_half_even (x / u) = m * 2 ^ nat (k - (e - 52))"
    by (simp only: round_half_even_of_int)
  then have "of_int (round_half_even (x / u)) * u = of_int m * 2 ^ nat (k - (e - 52)) * u"
    by simp
  also have "\<dots> = of_int m * 2 powi (k - (e - 52)) * u"
    using d by (simp add: power_int_nonneg_exp)
  also have "\<dots> = x"
    by (simp add: assms(2) u_def power_int_diff)
  finally show ?thesis
    using False by (simp add: binary64_def Let_def u_def e_def)
qed

lemma binary64_three_halves: "binary64 (3 / 2) = 3 / 2"
  using binary64_exact [of 3 "3 / 2" "- 1"] by simp




section \<open>Parsing: which events are kept\<close>

lemma parse_invalid_json: "ev_data event = PInvalidJson \<Longrightarrow> parseEventData B event = None"
  by (simp add: parseEventData_def parseEventData_body_def)

lemma parse_nullish: "ev_data event = PNullish \<Longrightarrow> parseEventData B event = None"
  by (simp add: parseEventData_def parseEventData_body_def)

lemma parse_object:
  "ev_data event = PObject d \<Longrightarrow> (\<exists>a. parseEventData B event = Some a) \<longleftrightarrow> recognised event"
  by (simp add: parseEventData_def parseEventData_body_def recognised_def Let_def)

lemma parse_Some_iff: "(\<exists>a. parseEventData B event = Some a) \<longleftrightarrow> well_formed event"
proof (cases "ev_data event")
  case PInvalidJson
  then show ?thesis by (simp add: parse_invalid_json well_formed_def)
next
  case PNullish
  then show ?thesis by (simp add: parse_nullish well_formed_def)
next
  case (PObject d)
  then show ?thesis using parse_object [OF PObject, of B] by (simp add: well_formed_def)
qed

lemma parse_events_filter:
  "parse_events B events = map (\<lambda>event. the (parseEventData B event)) (filter well_formed events)"
proof -
  have "(parseEventData B event \<noteq> None) = well_formed event" for event
    using parse_Some_iff [of B event] by auto
  then show ?thesis
    by (simp add: parse_events_def filter_map comp_def)
qed

lemma untagged_not_well_formed: "eventType event = None \<Longrightarrow> \<not> well_formed event"
  by (simp add: well_formed_def recognised_def tag_includes_def)

lemma fetch_events:
  "query limit = QueryResult errors (Events events)
     \<Longrightarrow> fetchRaffleEvents B query limit = parse_events B events"
  by (simp add: fetchRaffleEvents_def fetchRaffleEvents_body_def)

lemma parse_buy:
  assumes "tag_includes (eventType event) ''BuyTicketEvent''" and "ev_data event = PObject d"
  shows "parseEventData B event = Some
           \<lparr> type = ticket_purchase,
             buyer = Some (toString B (or_js (or_js (get_prop d ''buyer'') (get_prop d ''user'')) (JStr ''''))),
             creator = None,
             winner = None,
             raffleId = toNumber B
               (or_js (or_js (get_prop d ''raffle_id'') (get_prop d ''raffleId'')) (JNum (Num 0))),
             ticketCount = Some (toNumber B
               (or_js (or_js (get_prop d ''ticket_count'') (get_prop d ''ticketCount'')) (JNum (Num 0)))),
             totalPaid = Some (num_div (toNumber B
               (or_js (or_js (get_prop d ''total_paid'') (get_prop d ''totalPaid'')) (JNum (Num 0))))
               100000000),
             prizeAmount = None,
             timestamp = now_iso B,
             transactionVersion = toString B (ev_transaction_version event),
             blockHeight = toNumber B (ev_transaction_block_height event) \<rparr>"
  using assms by (simp add: parseEventData_def parseEventData_body_def)

lemma sample_buy_event_tag: "tag_includes (eventType sample_buy_event) ''BuyTicketEvent''"
  by (simp add: eventType_def tag_includes_def sample_buy_event_def)

lemma sample_buy_event_parsed:
  "parseEventData sample_builtins sample_buy_event = Some sample_parsed_purchase"
  using parse_buy [OF sample_buy_event_tag, of _ sample_builtins]
  by (simp add: sample_buy_event_def sample_builtins_def sample_parsed_purchase_def
      get_prop_def or_js_def sample_Number_def digit_val_def binary64_three_halves)

lemma sample_buy_event_well_formed: "well_formed sample_buy_event"
  using sample_buy_event_parsed parse_Some_iff [of sample_builtins sample_buy_event] by simp

lemma sample_untagged_event_tag: "eventType sample_untagged_event = None"
  by (simp add: eventType_def sample_untagged_event_def)

text \<open>
  C5. For every list of raw events, parsing drops each unknown or malformed event
  (parseEventData returns null for it) and keeps every well-formed one, in order; one
  bad event does not fail the batch: a list of one event without a type tag and one
  well-formed event gives a list of length 1 that holds the well-formed event's record.
\<close>

theorem malformed_events_dropped:
  "(well_formed event \<longrightarrow> (\<exists>a. parseEventData B event = Some a))
   \<and> (\<not> well_formed event \<longrightarrow> parseEventData B event = None)
   \<and> parse_events B events
       = map (\<lambda>event. the (parseEventData B event)) (filter well_formed events)
   \<and> length (parse_events B events) = length (filter well_formed events)
   \<and> (eventType bad = None \<and> well_formed good \<longrightarrow>
        parse_events B [bad, good] = [the (parseEventData B good)]
      \<and> parse_events B [good, bad] = [the (parseEventData B good)]
      \<and> fetchRaffleEvents B (\<lambda>limit. QueryResult [] (Events [bad, good])) n
          = [the (parseEventData B good)])"
proof -
  have kept: "well_formed event \<longrightarrow> (\<exists>a. parseEventData B event = Some a)"
    using parse_Some_iff [of B event] by simp
  have dropped: "\<not> well_formed event \<longrightarrow> parseEventData B event = None"
    using parse_Some_iff [of B event] by auto
  have scenario: "parse_events B [bad, good] = [the (parseEventData B good)]
      \<and> parse_events B [good, bad] = [the (parseEventData B good)]
      \<and> fetchRaffleEvents B (\<lambda>limit. QueryResult [] (Events [bad, good])) n
          = [the (parseEventData B good)]"
    if "eventType bad = None" and "well_formed good"
    using that untagged_not_well_formed [of bad]
    by (simp add: fetch_events parse_events_filter)
  show ?thesis
    using kept dropped scenario by (simp add: parse_events_filter)
qed

theorem malformed_events_dropped_witness:
  "eventType sample_untagged_event = None
   \<and> well_formed sample_buy_event
   \<and> parseEventData sample_builtins sample_untagged_event = None
   \<and> parse_events sample_builtins [sample_untagged_event, sample_buy_event]
       = [sample_parsed_purchase]
   \<and> length (parse_events sample_builtins [sample_untagged_event, sample_buy_event]) = 1
   \<and> fetchRaffleEvents sample_builtins
        (\<lambda>limit. QueryResult [] (Events [sample_untagged_event, sample_buy_event])) 5000
       = [sample_parsed_purchase]"
  using malformed_events_dropped
    [where event = sample_untagged_event and B = sample_builtins
       and events = "[sample_untagged_event, sample_buy_event]"
       and bad = sample_untagged_event and good = sample_buy_event and n = 5000]
    sample_untagged_event_tag sample_buy_event_well_formed sample_buy_event_parsed
    untagged_not_well_formed [of sample_untagged_event]
  by simp

section \<open>Fetching: failures of the upstream query\<close>

text \<open>
  C6 (amended). When the upstream query fails with a network error (the call throws) or
  resolves without data or without events, fetchRaffleEvents returns the empty list
  and does not raise, the same result as for an upstream that has no events. GraphQL
  errors that come with data are logged only: the events of the data are parsed and
  returned.
\<close>

theorem fetch_failure_gives_empty:
  "(query limit = QueryThrows \<longrightarrow> fetchRaffleEvents B query limit = [])
   \<and> (query limit = QueryResult errors NoData \<longrightarrow> fetchRaffleEvents B query limit = [])
   \<and> (query limit = QueryResult errors NoEvents \<longrightarrow> fetchRaffleEvents B query limit = [])
   \<and> (query limit = QueryResult errors (Events events) \<longrightarrow>
        fetchRaffleEvents B query limit = parse_events B events)
   \<and> fetchRaffleEvents B (\<lambda>limit. QueryResult [] (Events [])) limit = []"
  by (simp add: fetchRaffleEvents_def fetchRaffleEvents_body_def parse_events_def)

theorem fetch_failure_gives_empty_witness:
  "fetchRaffleEvents sample_builtins (\<lambda>limit. QueryThrows) 5000 = []
   \<and> fetchRaffleEvents sample_builtins (\<lambda>limit. QueryResult [''timeout''] NoData) 5000 = []
   \<and> fetchRaffleEvents sample_builtins (\<lambda>limit. QueryResult [] NoEvents) 5000 = []
   \<and> fetchRaffleEvents sample_builtins (\<lambda>limit. QueryResult [] (Events [])) 5000 = []"
  using fetch_failure_gives_empty
      [where query = "\<lambda>limit. QueryThrows" and limit = 5000 and B = sample_builtins]
    fetch_failure_gives_empty
      [where query = "\<lambda>limit. QueryResult [''timeout''] NoData" and limit = 5000
         and errors = "[''timeout'']" and B = sample_builtins]
    fetch_failure_gives_empty
      [where query = "\<lambda>limit. QueryResult [] NoEvents" and limit = 5000
         and errors = "[]" and B = sample_builtins]
  by simp

text \<open>
  C6 as stated fails for a GraphQL error that comes with data: the query resolves with
  one error and one event, and the result is that event's record, not the empty list.
\<close>

theorem graphql_error_with_data_counterexample:
  "fetchRaffleEvents sample_builtins
     (\<lambda>limit. QueryResult [''field not found''] (Events [sample_buy_event])) 5000
   = [sample_parsed_purchase]
   \<and> fetchRaffleEvents sample_builtins
     (\<lambda>limit. QueryResult [''field not found''] (Events [sample_buy_event])) 5000 \<noteq> []"
  by (simp add: fetchRaffleEvents_def fetchRaffleEvents_body_def parse_events_def
      sample_buy_event_parsed)

section \<open>Parsing: the scale of the monetary fields\<close>








section \<open>Analytics write path: one row per transaction version\<close>

lemma upsert_ignore_keys:
  "transaction_version ` set (upsert_ignore rows table)
     = transaction_version ` set rows \<union> transaction_version ` set table"
  by (induction rows arbitrary: table) auto

lemma upsert_ignore_distinct:
  "distinct (map transaction_version table)
     \<Longrightarrow> distinct (map transaction_version (upsert_ignore rows table))"
  by (induction rows arbitrary: table) auto

lemma upsert_ignore_present:
  "transaction_version ` set rows \<subseteq> transaction_version ` set table
     \<Longrightarrow> upsert_ignore rows table = table"
  by (induction rows arbitrary: table) auto

lemma upsert_ignore_twice:
  "upsert_ignore rows (upsert_ignore rows table) = upsert_ignore rows table"
  by (rule upsert_ignore_present) (simp add: upsert_ignore_keys)

lemma one_row_per_key:
  "distinct (map f xs) \<Longrightarrow> v \<in> f ` set xs \<Longrightarrow> length (filter (\<lambda>r. f r = v) xs) = 1"
proof (induction xs)
  case Nil
  then show ?case by simp
next
  case (Cons x xs)
  show ?case
  proof (cases "f x = v")
    case True
    then have "v \<notin> f ` set xs"
      using Cons.prems(1) by auto
    then have "filter (\<lambda>r. f r = v) xs = []"
      by (auto simp add: filter_empty_conv)
    then show ?thesis using True by simp
  next
    case False
    then show ?thesis using Cons by auto
  qed
qed

lemma to_row_version: "transaction_version (to_row activity) = transactionVersion activity"
  by (simp add: to_row_def)

text \<open>
  C3 (amended). When analytics is enabled, the store client is configured and the
  store applies the statement, then for every list of activity records in which a
  record with transaction version V occurs at least once, trackActivitiesBatch leaves
  exactly one persisted row for V (the table keeps its keys unique, and ingesting the
  same list again changes nothing). When analytics is disabled, the client is missing
  or the store fails, the table is left as it was.
\<close>

theorem ingestion_idempotent:
  assumes "ENABLE_ANALYTICS cfg" and "supabaseAdmin cfg"
    and "distinct (map transaction_version table)"
    and "V \<in> set (map transactionVersion activities)"
  shows "length (filter (\<lambda>r. transaction_version r = V)
                  (trackActivitiesBatch cfg DbOk activities table)) = 1
       \<and> distinct (map transaction_version (trackActivitiesBatch cfg DbOk activities table))
       \<and> trackActivitiesBatch cfg DbOk activities (trackActivitiesBatch cfg DbOk activities table)
           = trackActivitiesBatch cfg DbOk activities table
       \<and> trackActivitiesBatch cfg DbError activities table = table
       \<and> trackActivitiesBatch cfg DbThrows activities table = table
       \<and> trackActivitiesBatch (cfg \<lparr> ENABLE_ANALYTICS := False \<rparr>) response activities table = table
       \<and> trackActivitiesBatch (cfg \<lparr> supabaseAdmin := False \<rparr>) response activities table = table"
proof -
  have nonempty: "activities \<noteq> []"
    using assms(4) by auto
  have result: "trackActivitiesBatch cfg DbOk activities table
      = upsert_ignore (map to_row activities) table"
    using assms(1,2) nonempty by (simp add: trackActivitiesBatch_def)
  have unique: "distinct (map transaction_version (upsert_ignore (map to_row activities) table))"
    using assms(3) by (rule upsert_ignore_distinct)
  have "V \<in> transaction_version ` set (map to_row activities)"
    using assms(4) by (auto simp add: to_row_version image_iff)
  then have "V \<in> transaction_version ` set (upsert_ignore (map to_row activities) table)"
    by (simp add: upsert_ignore_keys)
  then have one: "length (filter (\<lambda>r. transaction_version r = V)
      (upsert_ignore (map to_row activities) table)) = 1"
    using unique by (simp add: one_row_per_key)
  have again: "trackActivitiesBatch cfg DbOk activities (upsert_ignore (map to_row activities) table)
      = upsert_ignore (map to_row activities) table"
    using assms(1,2) nonempty by (simp add: trackActivitiesBatch_def upsert_ignore_twice)
  show ?thesis
    using one unique again unfolding result
    by (simp add: trackActivitiesBatch_def)
qed

theorem ingestion_idempotent_witness:
  "ENABLE_ANALYTICS analytics_on \<and> supabaseAdmin analytics_on
   \<and> distinct (map transaction_version [to_row (sample_purchase ''7'' ''0xB'' 5 1 1)])
   \<and> ''1'' \<in> set (map transactionVersion
        [sample_purchase ''1'' ''0xA'' 5 3 (3/2), sample_purchase ''1'' ''0xA'' 5 3 (3/2),
         sample_purchase ''1'' ''0xA'' 5 3 (3/2)])
   \<and> trackActivitiesBatch analytics_on DbOk
        [sample_purchase ''1'' ''0xA'' 5 3 (3/2), sample_purchase ''1'' ''0xA'' 5 3 (3/2),
         sample_purchase ''1'' ''0xA'' 5 3 (3/2)]
        [to_row (sample_purchase ''7'' ''0xB'' 5 1 1)]
      = [to_row (sample_purchase ''7'' ''0xB'' 5 1 1), to_row (sample_purchase ''1'' ''0xA'' 5 3 (3/2))]
   \<and> length (filter (\<lambda>r. transaction_version r = ''1'')
        (trackActivitiesBatch analytics_on DbOk
          [sample_purchase ''1'' ''0xA'' 5 3 (3/2), sample_purchase ''1'' ''0xA'' 5 3 (3/2),
           sample_purchase ''1'' ''0xA'' 5 3 (3/2)]
          [to_row (sample_purchase ''7'' ''0xB'' 5 1 1)])) = 1"
proof -
  have pre: "ENABLE_ANALYTICS analytics_on" "supabaseAdmin analytics_on"
    "distinct (map transaction_version [to_row (sample_purchase ''7'' ''0xB'' 5 1 1)])"
    "''1'' \<in> set (map transactionVersion
        [sample_purchase ''1'' ''0xA'' 5 3 (3/2), sample_purchase ''1'' ''0xA'' 5 3 (3/2),
         sample_purchase ''1'' ''0xA'' 5 3 (3/2)])"
    by (simp_all add: analytics_on_def sample_purchase_def)
  have outcome: "trackActivitiesBatch analytics_on DbOk
        [sample_purchase ''1'' ''0xA'' 5 3 (3/2), sample_purchase ''1'' ''0xA'' 5 3 (3/2),
         sample_purchase ''1'' ''0xA'' 5 3 (3/2)]
        [to_row (sample_purchase ''7'' ''0xB'' 5 1 1)]
      = [to_row (sample_purchase ''7'' ''0xB'' 5 1 1), to_row (sample_purchase ''1'' ''0xA'' 5 3 (3/2))]"
    by (simp add: trackActivitiesBatch_def analytics_on_def to_row_version)
       (simp add: sample_purchase_def)
  show ?thesis
    using pre outcome ingestion_idempotent [OF pre] by simp
qed

text \<open>
  C3 as stated fails when analytics is disabled: the guard returns before anything is
  written, and no row for the version is persisted.
\<close>

theorem analytics_disabled_counterexample:
  "trackActivitiesBatch analytics_off DbOk
     [sample_purchase ''1'' ''0xA'' 5 3 (3/2), sample_purchase ''1'' ''0xA'' 5 3 (3/2)] [] = []
   \<and> length (filter (\<lambda>r. transaction_version r = ''1'')
        (trackActivitiesBatch analytics_off DbOk
          [sample_purchase ''1'' ''0xA'' 5 3 (3/2), sample_purchase ''1'' ''0xA'' 5 3 (3/2)] [])) = 0"
  by (simp add: trackActivitiesBatch_def analytics_off_def)

section \<open>Notification triggers: the processed marker\<close>

lemma run_calls_completed: "snd (run_calls returns cs) \<Longrightarrow> fst (run_calls returns cs) = cs"
  by (induction cs) (auto split: prod.splits if_splits)

lemma run_calls_completed_iff: "snd (run_calls returns cs) \<longleftrightarrow> (\<forall>c \<in> set cs. returns c)"
  by (induction cs) (auto split: prod.splits)

lemma marked_after_set:
  "connected r \<Longrightarrow> isTransactionProcessed (markTransactionProcessed r v) v"
  by (simp add: isTransactionProcessed_def markTransactionProcessed_def cache_exists_def
      cache_set_def)

text \<open>
  C4. processActivityNotifications checks the processed marker of the activity's
  transaction version before any side effect and changes nothing when the marker is
  set; when the handler raises, the cache is left as it was and the marker stays unset;
  a marker that is set by the call was set after the handler ran all its calls without
  raising.
\<close>

theorem marker_set_only_after_success:
  "(isTransactionProcessed (redis w) (transactionVersion activity) \<longrightarrow>
       processActivityNotifications returns activity md w = w)
   \<and> (\<not> isTransactionProcessed (redis w) (transactionVersion activity)
        \<and> \<not> snd (run_calls returns (handler_calls activity md)) \<longrightarrow>
       redis (processActivityNotifications returns activity md w) = redis w
     \<and> \<not> isTransactionProcessed (redis (processActivityNotifications returns activity md w))
           (transactionVersion activity)
     \<and> calls (processActivityNotifications returns activity md w)
         = calls w @ fst (run_calls returns (handler_calls activity md)))
   \<and> (\<not> isTransactionProcessed (redis w) (transactionVersion activity)
        \<and> isTransactionProcessed (redis (processActivityNotifications returns activity md w))
            (transactionVersion activity) \<longrightarrow>
       snd (run_calls returns (handler_calls activity md))
     \<and> (\<forall>c \<in> set (handler_calls activity md). returns c)
     \<and> calls (processActivityNotifications returns activity md w)
         = calls w @ handler_calls activity md)
   \<and> (\<not> isTransactionProcessed (redis w) (transactionVersion activity)
        \<and> snd (run_calls returns (handler_calls activity md)) \<and> connected (redis w) \<longrightarrow>
       isTransactionProcessed (redis (processActivityNotifications returns activity md w))
         (transactionVersion activity))"
proof -
  let ?v = "transactionVersion activity"
  let ?run = "run_calls returns (handler_calls activity md)"
  let ?w' = "processActivityNotifications returns activity md w"
  have skip: "isTransactionProcessed (redis w) ?v \<Longrightarrow> ?w' = w"
    by (simp add: processActivityNotifications_def)
  have raised: "redis ?w' = redis w \<and> \<not> isTransactionProcessed (redis ?w') ?v
      \<and> calls ?w' = calls w @ fst ?run"
    if "\<not> isTransactionProcessed (redis w) ?v" and "\<not> snd ?run"
    using that by (auto simp add: processActivityNotifications_def Let_def split: prod.splits)
  have completed: "calls ?w' = calls w @ handler_calls activity md
      \<and> redis ?w' = markTransactionProcessed (redis w) ?v"
    if "\<not> isTransactionProcessed (redis w) ?v" and "snd ?run"
    using that run_calls_completed [OF that(2)]
    by (auto simp add: processActivityNotifications_def Let_def split: prod.splits)
  have newly: "snd ?run \<and> (\<forall>c \<in> set (handler_calls activity md). returns c)
      \<and> calls ?w' = calls w @ handler_calls activity md"
    if "\<not> isTransactionProcessed (redis w) ?v" and "isTransactionProcessed (redis ?w') ?v"
  proof -
    have "snd ?run"
      using that raised by blast
    then show ?thesis
      using completed [OF that(1)] run_calls_completed_iff [of returns] by blast
  qed
  have marked: "isTransactionProcessed (redis ?w') ?v"
    if "\<not> isTransactionProcessed (redis w) ?v" and "snd ?run" and "connected (redis w)"
    using completed [OF that(1,2)] marked_after_set [OF that(3)] by simp
  show ?thesis
    using skip raised newly marked by blast
qed

lemma sample_handler_calls:
  "handler_calls (sample_purchase ''1'' ''0xA'' 5 3 (3/2)) (Some sample_metadata)
     = [UpsertUserTicket ''0xA'' (Num 5) (Num 3) (Num (3/2)),
        CreateNotification ''0xC'' ''ticket_purchased'' (Num 5) (Some ''0xA'')
          (Some (Num (3/2))) ''1'']"
  by (simp add: handler_calls_def handleTicketPurchase_def sample_purchase_def
      sample_metadata_def toLowerCase_def lower_char_def)

theorem marker_set_only_after_success_witness:
  "\<not> isTransactionProcessed (redis empty_world) ''1''
   \<and> processActivityNotifications all_return (sample_purchase ''1'' ''0xA'' 5 3 (3/2))
        (Some sample_metadata) empty_world
      = \<lparr> redis = \<lparr> stored = {''processed_tx:1''}, connected = True \<rparr>,
          calls = [UpsertUserTicket ''0xA'' (Num 5) (Num 3) (Num (3/2)),
                   CreateNotification ''0xC'' ''ticket_purchased'' (Num 5) (Some ''0xA'')
                     (Some (Num (3/2))) ''1''] \<rparr>
   \<and> processActivityNotifications notification_raises (sample_purchase ''1'' ''0xA'' 5 3 (3/2))
        (Some sample_metadata) empty_world
      = \<lparr> redis = \<lparr> stored = {}, connected = True \<rparr>,
          calls = [UpsertUserTicket ''0xA'' (Num 5) (Num 3) (Num (3/2)),
                   CreateNotification ''0xC'' ''ticket_purchased'' (Num 5) (Some ''0xA'')
                     (Some (Num (3/2))) ''1''] \<rparr>
   \<and> \<not> isTransactionProcessed
        (redis (processActivityNotifications notification_raises
           (sample_purchase ''1'' ''0xA'' 5 3 (3/2)) (Some sample_metadata) empty_world)) ''1''
   \<and> processActivityNotifications notification_raises (sample_purchase ''1'' ''0xA'' 5 3 (3/2))
        (Some sample_metadata)
        (processActivityNotifications all_return (sample_purchase ''1'' ''0xA'' 5 3 (3/2))
           (Some sample_metadata) empty_world)
      = processActivityNotifications all_return (sample_purchase ''1'' ''0xA'' 5 3 (3/2))
           (Some sample_metadata) empty_world"
proof -
  let ?p = "sample_purchase ''1'' ''0xA'' 5 3 (3/2)"
  have version: "transactionVersion ?p = ''1''"
    by (simp add: sample_purchase_def)
  have fresh: "\<not> isTransactionProcessed (redis empty_world) ''1''"
    by (simp add: isTransactionProcessed_def cache_exists_def empty_world_def)
  have ok: "processActivityNotifications all_return ?p (Some sample_metadata) empty_world
      = \<lparr> redis = \<lparr> stored = {''processed_tx:1''}, connected = True \<rparr>,
          calls = [UpsertUserTicket ''0xA'' (Num 5) (Num 3) (Num (3/2)),
                   CreateNotification ''0xC'' ''ticket_purchased'' (Num 5) (Some ''0xA'')
                     (Some (Num (3/2))) ''1''] \<rparr>"
    using fresh
    by (simp add: processActivityNotifications_def sample_handler_calls version all_return_def
        markTransactionProcessed_def cache_set_def PROCESSED_TX_PREFIX_def empty_world_def)
  have bad: "processActivityNotifications notification_raises ?p (Some sample_metadata) empty_world
      = \<lparr> redis = \<lparr> stored = {}, connected = True \<rparr>,
          calls = [UpsertUserTicket ''0xA'' (Num 5) (Num 3) (Num (3/2)),
                   CreateNotification ''0xC'' ''ticket_purchased'' (Num 5) (Some ''0xA'')
                     (Some (Num (3/2))) ''1''] \<rparr>"
    using fresh
    by (simp add: processActivityNotifications_def sample_handler_calls version empty_world_def)
  have set_now: "isTransactionProcessed
      (redis (processActivityNotifications all_return ?p (Some sample_metadata) empty_world)) ''1''"
    by (simp add: ok isTransactionProcessed_def cache_exists_def PROCESSED_TX_PREFIX_def)
  have skipped: "processActivityNotifications notification_raises ?p (Some sample_metadata)
        (processActivityNotifications all_return ?p (Some sample_metadata) empty_world)
      = processActivityNotifications all_return ?p (Some sample_metadata) empty_world"
    using set_now
      marker_set_only_after_success
        [where w = "processActivityNotifications all_return ?p (Some sample_metadata) empty_world"
           and activity = ?p and returns = notification_raises and md = "Some sample_metadata"]
    by (simp add: version)
  have unset: "\<not> isTransactionProcessed
        (redis (processActivityNotifications notification_raises ?p (Some sample_metadata)
           empty_world)) ''1''"
    by (simp add: bad isTransactionProcessed_def cache_exists_def)
  show ?thesis
    using fresh ok bad unset skipped by simp
qed

section \<open>Read endpoints: the envelope\<close>

lemma failure_envelope: "is_envelope (failure code message) \<and> \<not> succeeded (failure code message)
    \<and> untagged (failure code message)"
  by (simp add: failure_def is_envelope_def succeeded_def untagged_def)

lemma api_envelopes:
  "is_envelope (get_activity_global s1 limit) \<and> untagged (get_activity_global s1 limit)"
  "is_envelope (get_activity_raffle s2 raffle_param limit) \<and> untagged (get_activity_raffle s2 raffle_param limit)"
  "is_envelope (get_activity_user s3 userAddress limit) \<and> untagged (get_activity_user s3 userAddress limit)"
  "is_envelope (get_leaderboard_global s4 limit) \<and> untagged (get_leaderboard_global s4 limit)"
  "is_envelope (get_leaderboard_raffle s5 raffle_param limit) \<and> untagged (get_leaderboard_raffle s5 raffle_param limit)"
  "is_envelope (get_stats_platform s6) \<and> untagged (get_stats_platform s6)"
  "is_envelope (get_stats_raffle s7 raffle_param) \<and> untagged (get_stats_raffle s7 raffle_param)"
  by (simp_all add: get_activity_global_def get_activity_raffle_def get_activity_user_def
      get_leaderboard_global_def get_leaderboard_raffle_def get_stats_platform_def
      get_stats_raffle_def failure_def is_envelope_def untagged_def
      split: sum.splits option.splits)

lemma raffle_route_envelopes:
  "is_envelope (raffle_activity_global c1 s1 limit)
     \<and> (succeeded (raffle_activity_global c1 s1 limit)
          \<longrightarrow> tagged_with code_tags (raffle_activity_global c1 s1 limit))"
  "is_envelope (raffle_activity_raffle c2 s2 raffle_param limit)
     \<and> (succeeded (raffle_activity_raffle c2 s2 raffle_param limit)
          \<longrightarrow> tagged_with code_tags (raffle_activity_raffle c2 s2 raffle_param limit))"
  "is_envelope (raffle_leaderboard c3 s3 placeholder)
     \<and> (succeeded (raffle_leaderboard c3 s3 placeholder)
          \<longrightarrow> tagged_with code_tags (raffle_leaderboard c3 s3 placeholder))"
  by (simp_all add: raffle_activity_global_def raffle_activity_raffle_def raffle_leaderboard_def
      failure_def is_envelope_def succeeded_def tagged_with_def code_tags_def
      split: sum.splits option.splits)

text \<open>
  C9 (amended). Every read endpoint returns an envelope with a boolean success. The
  endpoints of apiRoutes (activity, leaderboard, stats) carry neither a cached indicator
  nor a source tag. The endpoints of raffleRoutes (global and per-raffle activity,
  leaderboard) carry, on success, a cached indicator and a source tag that is one of
  "redis", "indexer", "supabase" or "computed".
\<close>

theorem read_endpoint_envelopes:
  "is_envelope (get_activity_global s1 limit) \<and> untagged (get_activity_global s1 limit)
   \<and> is_envelope (get_activity_raffle s2 raffle_param limit)
   \<and> untagged (get_activity_raffle s2 raffle_param limit)
   \<and> is_envelope (get_activity_user s3 userAddress limit)
   \<and> untagged (get_activity_user s3 userAddress limit)
   \<and> is_envelope (get_leaderboard_global s4 limit) \<and> untagged (get_leaderboard_global s4 limit)
   \<and> is_envelope (get_leaderboard_raffle s5 raffle_param limit)
   \<and> untagged (get_leaderboard_raffle s5 raffle_param limit)
   \<and> is_envelope (get_stats_platform s6) \<and> untagged (get_stats_platform s6)
   \<and> is_envelope (get_stats_raffle s7 raffle_param) \<and> untagged (get_stats_raffle s7 raffle_param)
   \<and> is_envelope (raffle_activity_global c1 r1 limit)
   \<and> (succeeded (raffle_activity_global c1 r1 limit)
        \<longrightarrow> tagged_with code_tags (raffle_activity_global c1 r1 limit))
   \<and> is_envelope (raffle_activity_raffle c2 r2 raffle_param limit)
   \<and> (succeeded (raffle_activity_raffle c2 r2 raffle_param limit)
        \<longrightarrow> tagged_with code_tags (raffle_activity_raffle c2 r2 raffle_param limit))
   \<and> is_envelope (raffle_leaderboard c3 r3 placeholder)
   \<and> (succeeded (raffle_leaderboard c3 r3 placeholder)
        \<longrightarrow> tagged_with code_tags (raffle_leaderboard c3 r3 placeholder))"
  by (simp add: api_envelopes raffle_route_envelopes)

theorem read_endpoint_envelopes_witness:
  "succeeded (raffle_leaderboard None (Inr (Some [sample_purchase ''1'' ''0xA'' 5 3 (3/2)])) [])
   \<and> tagged_with code_tags
        (raffle_leaderboard None (Inr (Some [sample_purchase ''1'' ''0xA'' 5 3 (3/2)])) [])
   \<and> map_of (body (raffle_leaderboard None
        (Inr (Some [sample_purchase ''1'' ''0xA'' 5 3 (3/2)])) [])) ''source''
      = Some (VStr ''supabase'')
   \<and> succeeded (raffle_activity_global None
        (\<lambda>limit. Inr [sample_purchase ''1'' ''0xA'' 5 3 (3/2)]) None)
   \<and> tagged_with code_tags (raffle_activity_global None
        (\<lambda>limit. Inr [sample_purchase ''1'' ''0xA'' 5 3 (3/2)]) None)
   \<and> succeeded (raffle_activity_raffle (Some [sample_purchase ''1'' ''0xA'' 5 3 (3/2)])
        (\<lambda>rid limit. Inl NetworkError) (Some 5) None)
   \<and> tagged_with code_tags (raffle_activity_raffle (Some [sample_purchase ''1'' ''0xA'' 5 3 (3/2)])
        (\<lambda>rid limit. Inl NetworkError) (Some 5) None)"
proof -
  have s: "succeeded (raffle_leaderboard None (Inr (Some [sample_purchase ''1'' ''0xA'' 5 3 (3/2)])) [])"
    "map_of (body (raffle_leaderboard None
        (Inr (Some [sample_purchase ''1'' ''0xA'' 5 3 (3/2)])) [])) ''source''
      = Some (VStr ''supabase'')"
    "succeeded (raffle_activity_global None
        (\<lambda>limit. Inr [sample_purchase ''1'' ''0xA'' 5 3 (3/2)]) None)"
    "succeeded (raffle_activity_raffle (Some [sample_purchase ''1'' ''0xA'' 5 3 (3/2)])
        (\<lambda>rid limit. Inl NetworkError) (Some 5) None)"
    by (simp_all add: succeeded_def raffle_leaderboard_def raffle_activity_global_def
        raffle_activity_raffle_def)
  show ?thesis
    using s read_endpoint_envelopes
      [where ?c1.0 = None and ?r1.0 = "\<lambda>limit. Inr [sample_purchase ''1'' ''0xA'' 5 3 (3/2)]"
         and limit = None
         and ?c2.0 = "Some [sample_purchase ''1'' ''0xA'' 5 3 (3/2)]"
         and ?r2.0 = "\<lambda>rid limit. Inl NetworkError" and raffle_param = "Some 5"
         and ?c3.0 = None and ?r3.0 = "Inr (Some [sample_purchase ''1'' ''0xA'' 5 3 (3/2)])"
         and placeholder = "[]"]
    by blast
qed

text \<open>
  C9 as stated fails on the endpoints of apiRoutes: the successful answer of
  \<open>/activity/global\<close> and of \<open>/leaderboard/global\<close> has the properties success,
  data and count only; and the tag that raffleRoutes writes on a cache hit is "redis",
  which is none of the three tags of the claim.
\<close>

theorem envelope_without_tags_counterexample:
  "get_activity_global (\<lambda>limit. Inr [sample_purchase ''1'' ''0xA'' 5 3 (3/2)]) None
     = \<lparr> status = 200,
         body = [(''success'', VBool True),
                 (''data'', VData [sample_purchase ''1'' ''0xA'' 5 3 (3/2)]),
                 (''count'', VInt 1)] \<rparr>
   \<and> succeeded (get_activity_global (\<lambda>limit. Inr [sample_purchase ''1'' ''0xA'' 5 3 (3/2)]) None)
   \<and> \<not> tagged_with spec_tags
        (get_activity_global (\<lambda>limit. Inr [sample_purchase ''1'' ''0xA'' 5 3 (3/2)]) None)
   \<and> succeeded (get_leaderboard_global (\<lambda>limit. Inr ([] :: LeaderboardEntry list)) (Some 10))
   \<and> \<not> tagged_with spec_tags
        (get_leaderboard_global (\<lambda>limit. Inr ([] :: LeaderboardEntry list)) (Some 10))
   \<and> succeeded (raffle_activity_global (Some [sample_purchase ''1'' ''0xA'' 5 3 (3/2)])
        (\<lambda>limit. Inl NetworkError) None)
   \<and> \<not> tagged_with spec_tags
        (raffle_activity_global (Some [sample_purchase ''1'' ''0xA'' 5 3 (3/2)])
           (\<lambda>limit. Inl NetworkError) None)"
  by (simp add: get_activity_global_def get_leaderboard_global_def raffle_activity_global_def
      succeeded_def tagged_with_def spec_tags_def)

end
